theory Spec2Isabelle
  imports Complex_Main
begin

section \<open>Floating-point values\<close>

text \<open>
  The Python code computes with IEEE 754 doubles through numpy and pandas. A value is
  modelled as a finite real, one of the two infinities, or NaN (there is no negative
  zero). Every arithmetic operation on finite values rounds its exact result to the
  nearest double, ties to even, and overflows to an infinity, as the hardware does. The
  special values follow IEEE 754: \<open>0/0\<close> is NaN, \<open>x/0\<close> is an infinity for \<open>x \<noteq> 0\<close>, NaN
  propagates through arithmetic and every comparison with NaN is false.
\<close>

datatype fl = Fin real | PInf | NInf | NaN

text \<open>Rounding to the nearest integer, halves to the even neighbour (\<open>np.rint\<close>).\<close>

definition rint :: "real \<Rightarrow> int" where
  "rint x = (let f = \<lfloor>x\<rfloor>; d = x - of_int f in
             if d < 1 / 2 then f else if 1 / 2 < d then f + 1
             else if even f then f else f + 1)"

text \<open>
  The binade of \<open>x\<close> is the exponent \<open>e\<close> with \<open>2^e \<le> |x| < 2^(e+1)\<close>, found by halving or
  doubling, and kept within the exponent range of a double: -1022 for zero and the
  subnormal numbers, 1024 from \<open>2^1024\<close> on. The doubles of a binade are the multiples of
  its unit in the last place, 52 binary digits below; \<open>rnd\<close> rounds to the nearest of
  them.
\<close>

fun halvings :: "nat \<Rightarrow> real \<Rightarrow> int" where
  "halvings 0 y = 0"
| "halvings (Suc n) y = (if y < 2 then 0 else 1 + halvings n (y / 2))"

fun doublings :: "nat \<Rightarrow> real \<Rightarrow> int" where
  "doublings 0 y = 0"
| "doublings (Suc n) y = (if 1 \<le> y then 0 else 1 + doublings n (2 * y))"

definition binade :: "real \<Rightarrow> int" where
  "binade x = (if 1 \<le> \<bar>x\<bar> then halvings 1024 \<bar>x\<bar> else - doublings 1022 \<bar>x\<bar>)"

definition ulp :: "real \<Rightarrow> real" where
  "ulp x = 2 powi (binade x - 52)"

definition rnd :: "real \<Rightarrow> real" where
  "rnd x = of_int (rint (x / ulp x)) * ulp x"

text \<open>The double nearest to a real; a decimal literal of the source denotes
  \<open>to_double\<close> of its value.\<close>

definition to_double :: "real \<Rightarrow> fl" where
  "to_double x = (let r = rnd x in
                  if 2 ^ 1024 \<le> \<bar>r\<bar> then (if 0 < r then PInf else NInf) else Fin r)"

fun fneg :: "fl \<Rightarrow> fl" where
  "fneg (Fin x) = Fin (- x)"
| "fneg PInf = NInf"
| "fneg NInf = PInf"
| "fneg NaN = NaN"

fun fadd :: "fl \<Rightarrow> fl \<Rightarrow> fl" where
  "fadd (Fin x) (Fin y) = to_double (x + y)"
| "fadd NaN _ = NaN"
| "fadd _ NaN = NaN"
| "fadd PInf NInf = NaN"
| "fadd NInf PInf = NaN"
| "fadd PInf _ = PInf"
| "fadd _ PInf = PInf"
| "fadd NInf _ = NInf"
| "fadd _ NInf = NInf"

definition fsub :: "fl \<Rightarrow> fl \<Rightarrow> fl" where
  "fsub a b = fadd a (fneg b)"

fun sign_of :: "fl \<Rightarrow> real" where
  "sign_of (Fin x) = sgn x"
| "sign_of PInf = 1"
| "sign_of NInf = - 1"
| "sign_of NaN = 0"

definition inf_of_sign :: "real \<Rightarrow> fl" where
  "inf_of_sign s = (if 0 < s then PInf else NInf)"

fun fmul :: "fl \<Rightarrow> fl \<Rightarrow> fl" where
  "fmul (Fin x) (Fin y) = to_double (x * y)"
| "fmul NaN _ = NaN"
| "fmul _ NaN = NaN"
| "fmul a b = (let s = sign_of a * sign_of b in if s = 0 then NaN else inf_of_sign s)"

fun fdiv :: "fl \<Rightarrow> fl \<Rightarrow> fl" where
  "fdiv (Fin x) (Fin y) =
     (if y = 0 then (if x = 0 then NaN else inf_of_sign (sgn x)) else to_double (x / y))"
| "fdiv NaN _ = NaN"
| "fdiv _ NaN = NaN"
| "fdiv (Fin x) _ = Fin 0"
| "fdiv a (Fin y) = inf_of_sign (sign_of a * (if y < 0 then - 1 else 1))"
| "fdiv _ _ = NaN"

fun fabs :: "fl \<Rightarrow> fl" where
  "fabs (Fin x) = Fin \<bar>x\<bar>"
| "fabs PInf = PInf"
| "fabs NInf = PInf"
| "fabs NaN = NaN"

fun flt :: "fl \<Rightarrow> fl \<Rightarrow> bool" where
  "flt NaN _ = False"
| "flt _ NaN = False"
| "flt (Fin x) (Fin y) = (x < y)"
| "flt NInf NInf = False"
| "flt NInf _ = True"
| "flt PInf _ = False"
| "flt (Fin x) PInf = True"
| "flt (Fin x) NInf = False"

definition fgt :: "fl \<Rightarrow> fl \<Rightarrow> bool" where
  "fgt a b = flt b a"

definition fge :: "fl \<Rightarrow> fl \<Rightarrow> bool" where
  "fge a b = (a \<noteq> NaN \<and> b \<noteq> NaN \<and> \<not> flt a b)"

text \<open>\<open>np.maximum\<close> and \<open>np.minimum\<close> propagate NaN; \<open>np.clip(x, lo, hi)\<close> is
  \<open>minimum(maximum(x, lo), hi)\<close>.\<close>

definition np_maximum :: "fl \<Rightarrow> fl \<Rightarrow> fl" where
  "np_maximum a b = (if a = NaN \<or> b = NaN then NaN else if flt a b then b else a)"

definition np_minimum :: "fl \<Rightarrow> fl \<Rightarrow> fl" where
  "np_minimum a b = (if a = NaN \<or> b = NaN then NaN else if flt b a then b else a)"

definition np_clip :: "fl \<Rightarrow> fl \<Rightarrow> fl \<Rightarrow> fl" where
  "np_clip x lo hi = np_minimum (np_maximum x lo) hi"

text \<open>Python's builtin \<open>max(a, b)\<close> keeps \<open>a\<close> unless \<open>b > a\<close>; with \<open>b\<close> NaN the
  comparison is false and \<open>a\<close> is returned.\<close>

definition py_max :: "fl \<Rightarrow> fl \<Rightarrow> fl" where
  "py_max a b = (if fgt b a then b else a)"

text \<open>\<open>Series.round(2)\<close> is numpy's rounding: scale by 100, round to the nearest
  integer, scale back, each step in double arithmetic.\<close>

fun round2 :: "fl \<Rightarrow> fl" where
  "round2 (Fin x) = (case to_double (x * 100) of
                       Fin y \<Rightarrow> to_double (of_int (rint y) / 100)
                     | v \<Rightarrow> v)"
| "round2 v = v"

section \<open>Batch statistics\<close>

text \<open>
  The reductions over a batch (mean, sum of squared deviations, square root) are calls
  into numpy, pandas and scipy whose summation order and algorithm depend on the library
  version and build. They are modelled over the exact reals: the model agrees with the
  library wherever the sums, the quotient and the root are doubles themselves, as for the
  batches evaluated below, and may differ from it in the last digits otherwise. The
  element-wise arithmetic applied to their results is rounded as in the code.
\<close>

definition mean :: "real list \<Rightarrow> real" where
  "mean xs = sum_list xs / real (length xs)"

text \<open>\<open>Series.mean()\<close>: NaN on an empty series.\<close>

definition pd_mean :: "real list \<Rightarrow> fl" where
  "pd_mean xs = (if xs = [] then NaN else Fin (mean xs))"

definition sum_sq_dev :: "real list \<Rightarrow> real" where
  "sum_sq_dev xs = sum_list (map (\<lambda>x. (x - mean xs)\<^sup>2) xs)"

text \<open>\<open>Series.std()\<close> is the sample standard deviation (\<open>ddof = 1\<close>): NaN with fewer
  than two values.\<close>

definition pd_std :: "real list \<Rightarrow> fl" where
  "pd_std xs = (if length xs < 2 then NaN
                else Fin (sqrt (sum_sq_dev xs / real (length xs - 1))))"

text \<open>\<open>scipy.stats.zscore\<close> standardises with the population standard deviation
  (\<open>ddof = 0\<close>); the division is an IEEE division, so a constant batch gives \<open>0/0\<close>.\<close>

definition np_std :: "real list \<Rightarrow> real" where
  "np_std xs = sqrt (sum_sq_dev xs / real (length xs))"

definition zscore :: "real list \<Rightarrow> fl list" where
  "zscore xs = map (\<lambda>x. fdiv (fsub (Fin x) (Fin (mean xs))) (Fin (np_std xs))) xs"

section \<open>The ensemble detector: scores and severity\<close>

datatype error = ValueError string | OSError string

definition spc_analysis :: "real list \<Rightarrow> fl list" where
  "spc_analysis vals =
     (let mean_val = pd_mean vals;
          std_val = pd_std vals;
          ucl = fadd mean_val (fmul (Fin 3) std_val);
          lcl = fsub mean_val (fmul (Fin 3) std_val)
      in map (\<lambda>v. fadd (fdiv (np_maximum (Fin 0) (fsub (Fin v) ucl)) std_val)
                        (fdiv (np_maximum (Fin 0) (fsub lcl (Fin v))) std_val)) vals)"

text \<open>\<open>ndarray.min()\<close> and \<open>ndarray.max()\<close>; the caller checks for the empty array, on
  which numpy raises.\<close>

definition arr_min :: "real list \<Rightarrow> real" where
  "arr_min xs = fold min (tl xs) (hd xs)"

definition arr_max :: "real list \<Rightarrow> real" where
  "arr_max xs = fold max (tl xs) (hd xs)"

definition iso_normalized :: "real list \<Rightarrow> fl list" where
  "iso_normalized isolation_scores =
     map (\<lambda>s. fsub (Fin 1)
                (fdiv (fsub (Fin s) (Fin (arr_min isolation_scores)))
                      (fadd (fsub (Fin (arr_max isolation_scores))
                                  (Fin (arr_min isolation_scores)))
                            (to_double (1 / 10 ^ 8)))))
       isolation_scores"

definition z_normalized :: "fl list \<Rightarrow> fl list" where
  "z_normalized z_scores = map (\<lambda>z. np_clip (fdiv z (Fin 4)) (Fin 0) (Fin 1)) z_scores"

definition spc_normalized :: "fl list \<Rightarrow> fl list" where
  "spc_normalized spc_scores = map (\<lambda>s. np_clip (fdiv s (Fin 3)) (Fin 0) (Fin 1)) spc_scores"

text \<open>
  \<open>_combine_scores\<close>. The isolation scores are the finite decision values of the outlier
  model. The three arrays hold one entry per reading; numpy raises on the empty array
  (no minimum) and on arrays of different lengths (broadcasting of one-element arrays is
  not modelled). The weights are the doubles nearest to 0.5, 0.3 and 0.2, and the sum is
  taken from left to right.
\<close>

definition combine_scores :: "real list \<Rightarrow> fl list \<Rightarrow> fl list \<Rightarrow> error + fl list" where
  "combine_scores isolation_scores z_scores spc_scores =
     (if isolation_scores = []
      then Inl (ValueError ''zero-size array to reduction operation minimum which has no identity'')
      else if length z_scores \<noteq> length isolation_scores
              \<or> length spc_scores \<noteq> length isolation_scores
      then Inl (ValueError ''operands could not be broadcast together'')
      else Inr (map (\<lambda>(i, z, s).
                  fadd (fadd (fmul (to_double 0.5) i) (fmul (to_double 0.3) z))
                       (fmul (to_double 0.2) s))
                (zip (iso_normalized isolation_scores)
                     (zip (z_normalized z_scores) (spc_normalized spc_scores)))))"

record thresholds =
  critical :: real
  warning :: real
  info :: real

text \<open>\<open>_classify_severity\<close>: one label per score, in order. A NaN score meets no
  threshold. The thresholds are kept as the decimal values the source writes, and a score
  given in decimal is compared as that value. For a computed double the comparisons agree
  with the code's, whose thresholds are the nearest doubles, except at the one score
  equal to the double nearest to 0.3: it lies just below 0.3, so the code labels it Info
  and the comparison here does not.\<close>

fun classify_severity :: "thresholds \<Rightarrow> fl list \<Rightarrow> string list" where
  "classify_severity th [] = []"
| "classify_severity th (score # scores) =
     (if fge score (Fin (critical th)) then ''Critical''
      else if fge score (Fin (warning th)) then ''Warning''
      else if fge score (Fin (info th)) then ''Info''
      else ''Normal'') # classify_severity th scores"



section \<open>Data frames\<close>

text \<open>
  A timestamp is a calendar day (counted from 1970-01-01, a Thursday) and an hour of the
  day. A cell of the \<open>date\<close> column is either text, as read from a CSV file, or an
  instant, as \<open>pd.to_datetime\<close> leaves it.
\<close>

record datetime =
  day :: int
  hour :: nat

definition dayofweek :: "datetime \<Rightarrow> nat" where
  "dayofweek t = nat ((day t + 3) mod 7)"

datatype cell = Text string | Stamp datetime

text \<open>
  A DataFrame, column by column. \<open>energyOutput\<close> is the value column the ingest layer
  has validated: it is always present, its entries are finite, and its length is the
  number of rows. The other columns are optional. pandas keeps every column as long as
  the index (\<open>wf_frame\<close>).
\<close>

record frame =
  col_date :: "cell list option"
  col_energyOutput :: "real list"
  col_severity :: "string list option"
  col_anomaly_score :: "fl list option"
  col_recommended_action :: "string list option"
  col_isolation_score :: "real list option"
  col_z_score :: "fl list option"
  col_spc_score :: "fl list option"
  col_anomaly_flag :: "bool list option"

definition len :: "frame \<Rightarrow> nat" where
  "len data = length (col_energyOutput data)"

definition col_ok :: "nat \<Rightarrow> 'a list option \<Rightarrow> bool" where
  "col_ok n c = (case c of None \<Rightarrow> True | Some xs \<Rightarrow> length xs = n)"

definition wf_frame :: "frame \<Rightarrow> bool" where
  "wf_frame data =
     (col_ok (len data) (col_date data) \<and> col_ok (len data) (col_severity data)
      \<and> col_ok (len data) (col_anomaly_score data)
      \<and> col_ok (len data) (col_recommended_action data)
      \<and> col_ok (len data) (col_isolation_score data)
      \<and> col_ok (len data) (col_z_score data) \<and> col_ok (len data) (col_spc_score data)
      \<and> col_ok (len data) (col_anomaly_flag data))"

text \<open>\<open>pd.DataFrame()\<close>: no rows.\<close>

definition empty_frame :: frame where
  "empty_frame = \<lparr>col_date = None, col_energyOutput = [], col_severity = None,
     col_anomaly_score = None, col_recommended_action = None, col_isolation_score = None,
     col_z_score = None, col_spc_score = None, col_anomaly_flag = None\<rparr>"

text \<open>Boolean-mask row selection, \<open>data[mask]\<close>.\<close>

definition select :: "bool list \<Rightarrow> 'a list \<Rightarrow> 'a list" where
  "select keep xs = map snd (filter fst (zip keep xs))"

definition filter_rows :: "bool list \<Rightarrow> frame \<Rightarrow> frame" where
  "filter_rows keep data =
     \<lparr>col_date = map_option (select keep) (col_date data),
      col_energyOutput = select keep (col_energyOutput data),
      col_severity = map_option (select keep) (col_severity data),
      col_anomaly_score = map_option (select keep) (col_anomaly_score data),
      col_recommended_action = map_option (select keep) (col_recommended_action data),
      col_isolation_score = map_option (select keep) (col_isolation_score data),
      col_z_score = map_option (select keep) (col_z_score data),
      col_spc_score = map_option (select keep) (col_spc_score data),
      col_anomaly_flag = map_option (select keep) (col_anomaly_flag data)\<rparr>"

section \<open>The environment\<close>

text \<open>
  What the code calls but does not define: scikit-learn's \<open>StandardScaler\<close> and
  \<open>IsolationForest\<close> (with states \<open>'s\<close> and \<open>'f\<close>; every call may raise), pandas'
  datetime parser (\<open>Inl\<close> carries the message of the exception it raises), the clock
  (\<open>clock E i\<close> is what \<open>datetime.now()\<close> returns in round \<open>i\<close> of the batch loop),
  \<open>strftime\<close> with the formats \<open>%Y-%m-%d\<close> and \<open>%Y-%m-%d %H:%M:%S\<close>, and the file
  system (\<open>write_error E p\<close> is the message of the error that opening \<open>p\<close> for writing
  raises, if it raises).
\<close>

record ('s, 'f) env =
  new_scaler :: 's
  new_forest :: "real \<Rightarrow> int \<Rightarrow> nat \<Rightarrow> 'f"
  fit_transform :: "'s \<Rightarrow> real list list \<Rightarrow> error + ('s \<times> real list list)"
  transform :: "'s \<Rightarrow> real list list \<Rightarrow> error + real list list"
  forest_fit :: "'f \<Rightarrow> real list list \<Rightarrow> error + 'f"
  decision_function :: "'f \<Rightarrow> real list list \<Rightarrow> error + real list"
  predict :: "'f \<Rightarrow> real list list \<Rightarrow> error + int list"
  to_datetime :: "string \<Rightarrow> string + datetime"
  clock :: "nat \<Rightarrow> datetime"
  strftime_date :: "int \<Rightarrow> string"
  strftime_seconds :: "datetime \<Rightarrow> string"
  write_error :: "string \<Rightarrow> string option"

text \<open>\<open>pd.to_datetime\<close> on a column: the first cell that does not parse raises. The
  parser is applied cell by cell; a pandas version that infers one format for the whole
  column also rejects columns of mixed formats, which is not modelled.\<close>

fun to_datetime_col :: "(string \<Rightarrow> string + datetime) \<Rightarrow> cell list \<Rightarrow> error + datetime list" where
  "to_datetime_col parse [] = Inr []"
| "to_datetime_col parse (c # cs) =
     (case (case c of Stamp t \<Rightarrow> Inr t | Text s \<Rightarrow> parse s) of
        Inl msg \<Rightarrow> Inl (ValueError msg)
      | Inr t \<Rightarrow> (case to_datetime_col parse cs of
                    Inl e \<Rightarrow> Inl e
                  | Inr ts \<Rightarrow> Inr (t # ts)))"

section \<open>Feature extraction\<close>

text \<open>The trailing window of size 3 ending at position \<open>i\<close> (shorter at the start).\<close>

definition window3 :: "real list \<Rightarrow> nat \<Rightarrow> real list" where
  "window3 xs i = drop (i + 1 - 3) (take (i + 1) xs)"

definition rolling_mean :: "real list \<Rightarrow> real list" where
  "rolling_mean xs = map (\<lambda>i. mean (window3 xs i)) [0..<length xs]"

text \<open>\<open>rolling(window=3, min_periods=1).std().fillna(0)\<close>: the sample standard deviation
  of a one-element window is NaN, which \<open>fillna\<close> replaces by 0.\<close>

definition fillna0 :: "fl \<Rightarrow> real" where
  "fillna0 v = (case v of Fin x \<Rightarrow> x | _ \<Rightarrow> 0)"

definition rolling_std :: "real list \<Rightarrow> real list" where
  "rolling_std xs = map (\<lambda>i. fillna0 (pd_std (window3 xs i))) [0..<length xs]"

text \<open>\<open>diff().fillna(0)\<close>.\<close>

fun diff_fillna0 :: "real list \<Rightarrow> real list" where
  "diff_fillna0 [] = []"
| "diff_fillna0 (x # xs) = 0 # map (\<lambda>(a, b). b - a) (zip (x # xs) xs)"

text \<open>The feature columns of \<open>_extract_features\<close>, in the order they are appended.\<close>

definition feature_columns :: "('s, 'f) env \<Rightarrow> frame \<Rightarrow> real list list" where
  "feature_columns E data =
     [col_energyOutput data]
     @ (if len data \<ge> 7
        then [rolling_mean (col_energyOutput data), rolling_std (col_energyOutput data)]
        else [])
     @ (case col_date data of
          None \<Rightarrow> []
        | Some cells \<Rightarrow>
            (case to_datetime_col (to_datetime E) cells of
               Inl _ \<Rightarrow> []
             | Inr dates \<Rightarrow> [map (\<lambda>t. real (hour t)) dates,
                               map (\<lambda>t. real (dayofweek t)) dates]))
     @ (if len data > 1 then [diff_fillna0 (col_energyOutput data)] else [])"

text \<open>\<open>np.column_stack\<close> of columns of length \<open>n\<close>: one row per entry.\<close>

definition column_stack :: "nat \<Rightarrow> real list list \<Rightarrow> real list list" where
  "column_stack n cols = map (\<lambda>i. map (\<lambda>c. c ! i) cols) [0..<n]"

definition extract_features :: "('s, 'f) env \<Rightarrow> frame \<Rightarrow> real list list" where
  "extract_features E data = column_stack (len data) (feature_columns E data)"

section \<open>The detector\<close>

record ('s, 'f) detector =
  contamination :: real
  random_state :: int
  isolation_forest :: 'f
  scaler :: 's
  fitted :: bool
  thresholds :: thresholds

definition init :: "('s, 'f) env \<Rightarrow> real \<Rightarrow> int \<Rightarrow> ('s, 'f) detector" where
  "init E c r =
     \<lparr>contamination = c, random_state = r, isolation_forest = new_forest E c r 100,
      scaler = new_scaler E, fitted = False,
      thresholds = \<lparr>critical = 0.8, warning = 0.5, info = 0.3\<rparr>\<rparr>"

text \<open>\<open>fit\<close> mutates the detector; the pair is the exception raised, if any, and the
  detector after the call.\<close>

definition fit :: "('s, 'f) env \<Rightarrow> ('s, 'f) detector \<Rightarrow> frame
    \<Rightarrow> error option \<times> ('s, 'f) detector" where
  "fit E d data =
     (let features = extract_features E data in
      case fit_transform E (scaler d) features of
        Inl e \<Rightarrow> (Some e, d)
      | Inr (s', scaled_features) \<Rightarrow>
          (case forest_fit E (isolation_forest d) scaled_features of
             Inl e \<Rightarrow> (Some e, d\<lparr>scaler := s'\<rparr>)
           | Inr f' \<Rightarrow> (None, d\<lparr>scaler := s', isolation_forest := f', fitted := True\<rparr>)))"

text \<open>\<open>_get_recommendations\<close>, row by row over the severity and value columns.\<close>

definition get_recommendations :: "string list \<Rightarrow> real list \<Rightarrow> string list" where
  "get_recommendations sevs vals =
     map (\<lambda>(sev, v).
        if sev = ''Critical''
        then (if flt (Fin v) (fmul (pd_mean vals) (Fin 0.5))
              then ''Immediate equipment inspection required''
              else ''Check for external factors affecting output'')
        else if sev = ''Warning'' then ''Monitor closely and schedule maintenance check''
        else if sev = ''Info'' then ''Note for pattern analysis''
        else ''No action required'')
      (zip sevs vals)"

text \<open>
  \<open>detect_anomalies\<close>. The first component is the exception raised or the frame
  returned; the second is the caller's frame after the call.
\<close>

definition detect_anomalies :: "('s, 'f) env \<Rightarrow> ('s, 'f) detector \<Rightarrow> frame
    \<Rightarrow> (error + frame) \<times> frame" where
  "detect_anomalies E d data =
     (if \<not> fitted d
      then (Inl (ValueError ''Model must be fitted before detecting anomalies''), data)
      else
        let features = extract_features E data in
        case transform E (scaler d) features of
          Inl e \<Rightarrow> (Inl e, data)
        | Inr scaled_features \<Rightarrow>
        (case decision_function E (isolation_forest d) scaled_features of
          Inl e \<Rightarrow> (Inl e, data)
        | Inr isolation_scores \<Rightarrow>
        (case predict E (isolation_forest d) scaled_features of
          Inl e \<Rightarrow> (Inl e, data)
        | Inr isolation_anomalies \<Rightarrow>
        (let z_scores = map fabs (zscore (col_energyOutput data));
             spc_scores = spc_analysis (col_energyOutput data)
         in case combine_scores isolation_scores z_scores spc_scores of
              Inl e \<Rightarrow> (Inl e, data)
            | Inr combined_scores \<Rightarrow>
                (let sevs = classify_severity (thresholds d) combined_scores;
                     result = data
                       \<lparr>col_anomaly_score := Some combined_scores,
                        col_isolation_score := Some isolation_scores,
                        col_z_score := Some z_scores,
                        col_spc_score := Some spc_scores,
                        col_anomaly_flag :=
                          Some (map (\<lambda>c. fgt c (Fin (info (thresholds d)))) combined_scores),
                        col_severity := Some sevs,
                        col_recommended_action :=
                          Some (get_recommendations sevs (col_energyOutput data))\<rparr>
                 in (Inr result, data))))))"

section \<open>Alert export\<close>

record alert =
  alert_id :: nat
  timestamp :: cell
  energy_kwh :: real
  severity :: string
  anomaly_score :: fl
  deviation_percentage :: fl
  expected_min :: fl
  expected_max :: fl
  system_status :: string
  recommended_action :: string
  units_affected :: string
  trend_direction :: string
  created_at :: string

text \<open>The keys of the \<open>export_columns\<close> dictionary, in order: the columns of a
  formatted frame and the header line \<open>to_csv\<close> writes for it.\<close>

definition export_columns :: "string list" where
  "export_columns = [''alert_id'', ''timestamp'', ''energy_kwh'', ''severity'',
     ''anomaly_score'', ''deviation_percentage'', ''expected_min'', ''expected_max'',
     ''system_status'', ''recommended_action'', ''units_affected'', ''trend_direction'',
     ''created_at'']"

text \<open>The \<open>headers\<close> list written for a day without alerts.\<close>

definition headers :: "string list" where
  "headers = [''alert_id'', ''timestamp'', ''energy_kwh'', ''severity'', ''anomaly_score'',
     ''deviation_percentage'', ''expected_min'', ''expected_max'', ''system_status'',
     ''recommended_action'', ''units_affected'', ''trend_direction'', ''created_at'']"

text \<open>\<open>anomaly_data.get(name, default)\<close>: the column, or the default in every row.\<close>

definition column_or :: "nat \<Rightarrow> 'a \<Rightarrow> 'a list option \<Rightarrow> 'a list" where
  "column_or n dflt c = (case c of None \<Rightarrow> replicate n dflt | Some xs \<Rightarrow> xs)"

text \<open>The severity-to-status mapping with \<open>fillna('Under Review')\<close>.\<close>

definition system_status_of :: "string \<Rightarrow> string" where
  "system_status_of sev =
     (if sev = ''Critical'' then ''Requires Immediate Attention''
      else if sev = ''Warning'' then ''Monitoring Required''
      else if sev = ''Info'' then ''Normal Operation''
      else if sev = ''Normal'' then ''Operating Normally''
      else ''Under Review'')"

text \<open>\<open>Series.is_monotonic_decreasing\<close>: no value exceeds its predecessor.\<close>

fun is_monotonic_decreasing :: "real list \<Rightarrow> bool" where
  "is_monotonic_decreasing (x # y # zs) = (y \<le> x \<and> is_monotonic_decreasing (y # zs))"
| "is_monotonic_decreasing _ = True"

text \<open>
  The rows \<open>format_alert_data\<close> builds from the day's frame once the mean and the standard
  deviation of its values are known; \<open>t\<close> is the clock reading that stamps \<open>created_at\<close>.
\<close>

definition alert_rows :: "('s, 'f) env \<Rightarrow> datetime \<Rightarrow> frame \<Rightarrow> fl \<Rightarrow> fl \<Rightarrow> alert list" where
  "alert_rows E t anomaly_data mean_output std_output =
     (let n = len anomaly_data;
          vals = col_energyOutput anomaly_data;
          lo = py_max (Fin 0) (fsub mean_output (fmul (Fin 2) std_output));
          hi = fadd mean_output (fmul (Fin 2) std_output);
          trend = (if n > 1
                   then (if is_monotonic_decreasing vals then ''Declining'' else ''Variable'')
                   else ''Single Point'')
      in map (\<lambda>k.
           \<lparr>alert_id = k + 1,
            timestamp = column_or n (Text '''') (col_date anomaly_data) ! k,
            energy_kwh = vals ! k,
            severity = column_or n ''Unknown'' (col_severity anomaly_data) ! k,
            anomaly_score = column_or n (Fin 0) (col_anomaly_score anomaly_data) ! k,
            deviation_percentage =
              round2 (fabs (fmul (fdiv (fsub (Fin (vals ! k)) mean_output) mean_output)
                                 (Fin 100))),
            expected_min = lo,
            expected_max = hi,
            system_status =
              system_status_of (column_or n ''Unknown'' (col_severity anomaly_data) ! k),
            recommended_action =
              column_or n ''Review and investigate''
                (col_recommended_action anomaly_data) ! k,
            units_affected = ''Primary System'',
            trend_direction = trend,
            created_at = strftime_seconds E t\<rparr>) [0..<n])"

text \<open>\<open>format_alert_data\<close>: nothing for an empty frame, else the rows for the mean and the
  sample standard deviation of the frame's own values.\<close>

definition format_alert_data :: "('s, 'f) env \<Rightarrow> datetime \<Rightarrow> frame \<Rightarrow> alert list" where
  "format_alert_data E t anomaly_data =
     (if len anomaly_data = 0 then []
      else alert_rows E t anomaly_data
             (pd_mean (col_energyOutput anomaly_data)) (pd_std (col_energyOutput anomaly_data)))"

text \<open>
  The daily summary written beside the alert file. Only the counts and the overall status
  are modelled; the averages, extrema, trend and recommendation texts of the source are
  left out (computing them raises nothing). The per-severity counts are absent from the
  summary of a day without alerts.
\<close>

record summary =
  summary_export_date :: string
  total_alerts :: nat
  critical_alerts :: "nat option"
  warning_alerts :: "nat option"
  info_alerts :: "nat option"
  summary_status :: string

definition generate_summary_stats :: "alert list \<Rightarrow> string \<Rightarrow> summary" where
  "generate_summary_stats alert_data export_date =
     (if alert_data = []
      then \<lparr>summary_export_date = export_date, total_alerts = 0, critical_alerts = None,
            warning_alerts = None, info_alerts = None, summary_status = ''No alerts''\<rparr>
      else
        let count = (\<lambda>s. length (filter (\<lambda>a. severity a = s) alert_data)) in
        \<lparr>summary_export_date = export_date, total_alerts = length alert_data,
         critical_alerts = Some (count ''Critical''),
         warning_alerts = Some (count ''Warning''),
         info_alerts = Some (count ''Info''),
         summary_status = (if count ''Critical'' > 0 then ''Critical'' else ''Normal'')\<rparr>)"

subsection \<open>Files\<close>

datatype file_content = Csv "string list" "alert list" | Json summary

type_synonym files = "string \<Rightarrow> file_content option"

definition write_file :: "('s, 'f) env \<Rightarrow> files \<Rightarrow> string \<Rightarrow> file_content \<Rightarrow> error + files" where
  "write_file E fs path content =
     (case write_error E path of
        Some msg \<Rightarrow> Inl (OSError msg)
      | None \<Rightarrow> Inr (fs(path \<mapsto> content)))"

text \<open>\<open>str.replace(old, new)\<close> for a non-empty \<open>old\<close>.\<close>

function str_replace :: "string \<Rightarrow> string \<Rightarrow> string \<Rightarrow> string" where
  "str_replace old new [] = []"
| "str_replace old new (c # cs) =
     (if old \<noteq> [] \<and> take (length old) (c # cs) = old
      then new @ str_replace old new (drop (length old) (c # cs))
      else c # str_replace old new cs)"
  by pat_completeness auto
termination
  by (relation "measure (\<lambda>(old, new, s). length s)") (auto simp: neq_Nil_conv)

text \<open>\<open>os.path.join\<close> of two components on POSIX.\<close>

definition os_path_join :: "string \<Rightarrow> string \<Rightarrow> string" where
  "os_path_join a b =
     (if b \<noteq> [] \<and> hd b = CHR ''/'' then b
      else if a = [] \<or> last a = CHR ''/'' then a @ b
      else a @ ''/'' @ b)"

subsection \<open>Daily export\<close>

record exporter =
  output_dir :: string

text \<open>
  \<open>filter_anomalies_by_date\<close> assigns the parsed dates to the \<open>date\<close> column of the frame
  it is given, which is the caller's: the second component is that frame after the call.
\<close>

definition filter_anomalies_by_date :: "('s, 'f) env \<Rightarrow> datetime \<Rightarrow> frame \<Rightarrow> string option
    \<Rightarrow> (error + frame) \<times> frame" where
  "filter_anomalies_by_date E t data target_date =
     (let target = (case target_date of None \<Rightarrow> strftime_date E (day t) | Some s \<Rightarrow> s) in
      case col_date data of
        None \<Rightarrow> (Inr empty_frame, data)
      | Some cells \<Rightarrow>
          (case to_datetime_col (to_datetime E) cells of
             Inl e \<Rightarrow> (Inl e, data)
           | Inr dates \<Rightarrow>
               (let data' = data\<lparr>col_date := Some (map Stamp dates)\<rparr> in
                case to_datetime E target of
                  Inl msg \<Rightarrow> (Inl (ValueError msg), data')
                | Inr target_datetime \<Rightarrow>
                    (Inr (filter_rows (map (\<lambda>d. day d = day target_datetime) dates) data'),
                     data'))))"

text \<open>
  \<open>export_daily_alerts\<close>, on the caller's frame and the file system. It returns the
  exception raised or the triple (path, alert count, summary), and the frame and the files
  after the call.
\<close>

definition export_daily_alerts :: "('s, 'f) env \<Rightarrow> datetime \<Rightarrow> exporter \<Rightarrow> frame \<times> files
    \<Rightarrow> string option \<Rightarrow> string
    \<Rightarrow> (error + string \<times> nat \<times> summary) \<times> (frame \<times> files)" where
  "export_daily_alerts E t self st export_date filename_prefix =
     (let anomaly_data = fst st; fs = snd st;
          export_date = (case export_date of None \<Rightarrow> strftime_date E (day t) | Some s \<Rightarrow> s)
      in case filter_anomalies_by_date E t anomaly_data (Some export_date) of
           (Inl e, data') \<Rightarrow> (Inl e, (data', fs))
         | (Inr daily_anomalies, data') \<Rightarrow>
             (let formatted_data = format_alert_data E t daily_anomalies;
                  filename = filename_prefix @ ''_'' @ str_replace ''-'' '''' export_date
                             @ ''.csv'';
                  export_path = os_path_join (output_dir self) filename;
                  content = (if formatted_data \<noteq> [] then Csv export_columns formatted_data
                             else Csv headers [])
              in case write_file E fs export_path content of
                   Inl e \<Rightarrow> (Inl e, (data', fs))
                 | Inr fs1 \<Rightarrow>
                     (let summary_stats = generate_summary_stats formatted_data export_date;
                          summary_path = str_replace ''.csv'' ''_summary.json'' export_path
                      in case write_file E fs1 summary_path (Json summary_stats) of
                           Inl e \<Rightarrow> (Inl e, (data', fs1))
                         | Inr fs2 \<Rightarrow>
                             (Inr (export_path, length formatted_data, summary_stats),
                              (data', fs2)))))"

subsection \<open>Batch export\<close>

record batch_result =
  date :: string
  file_path :: "string option"
  alert_count :: nat
  status :: string
  error :: "string option"

definition str_of_error :: "error \<Rightarrow> string" where
  "str_of_error e = (case e of ValueError msg \<Rightarrow> msg | OSError msg \<Rightarrow> msg)"

text \<open>One round of the loop of \<open>batch_export\<close>: the \<open>try\<close> block and its handler.\<close>

definition batch_step :: "('s, 'f) env \<Rightarrow> exporter \<Rightarrow> nat
    \<Rightarrow> batch_result list \<times> (frame \<times> files) \<Rightarrow> batch_result list \<times> (frame \<times> files)" where
  "batch_step E self i acc =
     (let results = fst acc; st = snd acc;
          export_date = strftime_date E (day (clock E i) - int i)
      in case export_daily_alerts E (clock E i) self st (Some export_date) ''alerts'' of
           (Inr (export_path, count, stats), st') \<Rightarrow>
             (results @ [\<lparr>date = export_date, file_path = Some export_path,
                          alert_count = count, status = ''success'', error = None\<rparr>], st')
         | (Inl e, st') \<Rightarrow>
             (results @ [\<lparr>date = export_date, file_path = None, alert_count = 0,
                          status = ''failed'', error = Some (str_of_error e)\<rparr>], st'))"

text \<open>\<open>batch_export\<close>: \<open>range(date_range_days)\<close> is empty for a negative argument.\<close>

definition batch_export :: "('s, 'f) env \<Rightarrow> exporter \<Rightarrow> frame \<times> files \<Rightarrow> int
    \<Rightarrow> batch_result list \<times> (frame \<times> files)" where
  "batch_export E self st date_range_days =
     fold (batch_step E self) [0..<nat date_range_days] ([], st)"

section \<open>A concrete environment and sample data\<close>

text \<open>
  The general results below hold for every environment. To run the model on concrete
  inputs, \<open>sample_env\<close> fixes one: a stand-in for scikit-learn that validates its input
  as the library does (no empty matrix, the column count seen at fit time) and scores a
  row by how far its first feature lies from the training mean; a parser and a formatter
  for the timestamps of the week ending on 2024-01-22 (day 19744); a clock standing at
  noon of that day; and a file system on which exactly the paths in \<open>bad\<close> cannot be
  written.
\<close>

definition sample_dates :: "(string \<times> int) list" where
  "sample_dates = [(''2024-01-22'', 19744), (''2024-01-21'', 19743), (''2024-01-20'', 19742),
     (''2024-01-19'', 19741), (''2024-01-18'', 19740), (''2024-01-17'', 19739),
     (''2024-01-16'', 19738)]"

definition sample_to_datetime :: "string \<Rightarrow> string + datetime" where
  "sample_to_datetime s =
     (case map_of sample_dates (take 10 s) of
        None \<Rightarrow> Inl ''Unknown datetime string format''
      | Some d \<Rightarrow>
          if s = take 10 s then Inr \<lparr>day = d, hour = 0\<rparr>
          else if drop 10 s = '' 06:00'' then Inr \<lparr>day = d, hour = 6\<rparr>
          else if drop 10 s = '' 14:00'' then Inr \<lparr>day = d, hour = 14\<rparr>
          else if drop 10 s = '' 22:00'' then Inr \<lparr>day = d, hour = 22\<rparr>
          else Inl ''Unknown datetime string format'')"

definition sample_strftime_date :: "int \<Rightarrow> string" where
  "sample_strftime_date d =
     (case map_of (map (\<lambda>(s, n). (n, s)) sample_dates) d of
        None \<Rightarrow> ''0000-00-00'' | Some s \<Rightarrow> s)"

definition sample_check :: "nat option \<Rightarrow> real list list \<Rightarrow> error option" where
  "sample_check k X =
     (if X = [] then Some (ValueError ''Found array with 0 sample(s)'')
      else case k of
             None \<Rightarrow> None
           | Some n \<Rightarrow> if length (hd X) = n then None
                       else Some (ValueError ''X has a different number of features''))"

definition sample_env :: "string list \<Rightarrow> (nat option, (nat \<times> real) option) env" where
  "sample_env bad =
     \<lparr>new_scaler = None,
      new_forest = (\<lambda>c r n. None),
      fit_transform = (\<lambda>s X. case sample_check None X of
                                 Some e \<Rightarrow> Inl e
                               | None \<Rightarrow> Inr (Some (length (hd X)), X)),
      transform = (\<lambda>s X. case s of
                            None \<Rightarrow> Inl (ValueError ''This StandardScaler instance is not fitted yet'')
                          | Some n \<Rightarrow> (case sample_check (Some n) X of
                                         Some e \<Rightarrow> Inl e | None \<Rightarrow> Inr X)),
      forest_fit = (\<lambda>f X. case sample_check None X of
                              Some e \<Rightarrow> Inl e
                            | None \<Rightarrow> Inr (Some (length (hd X), mean (map hd X)))),
      decision_function = (\<lambda>f X. case f of
                            None \<Rightarrow> Inl (ValueError ''This IsolationForest instance is not fitted yet'')
                          | Some (n, c) \<Rightarrow> (case sample_check (Some n) X of
                                         Some e \<Rightarrow> Inl e
                                       | None \<Rightarrow> Inr (map (\<lambda>row. - \<bar>hd row - c\<bar>) X))),
      predict = (\<lambda>f X. case f of
                            None \<Rightarrow> Inl (ValueError ''This IsolationForest instance is not fitted yet'')
                          | Some (n, c) \<Rightarrow> (case sample_check (Some n) X of
                                         Some e \<Rightarrow> Inl e
                                       | None \<Rightarrow> Inr (map (\<lambda>row. 1) X))),
      to_datetime = sample_to_datetime,
      clock = (\<lambda>i. \<lparr>day = 19744, hour = 12\<rparr>),
      strftime_date = sample_strftime_date,
      strftime_seconds = (\<lambda>t. sample_strftime_date (day t) @ '' 12:00:00''),
      write_error = (\<lambda>p. if p \<in> set bad then Some ''No space left on device'' else None)\<rparr>"

text \<open>A frame with the value column only, and one with text dates as \<open>read_csv\<close> gives.\<close>

definition values_frame :: "real list \<Rightarrow> frame" where
  "values_frame vals = empty_frame\<lparr>col_energyOutput := vals\<rparr>"

definition sample_data :: frame where
  "sample_data = empty_frame
     \<lparr>col_date := Some [Text ''2024-01-22 06:00'', Text ''2024-01-22 14:00'',
                         Text ''2024-01-22 22:00'', Text ''2024-01-20 06:00''],
      col_energyOutput := [100, 200, 300, 150],
      col_severity := Some [''Warning'', ''Normal'', ''Critical'', ''Info'']\<rparr>"

definition sample_exporter :: exporter where
  "sample_exporter = \<lparr>output_dir = ''./exports''\<rparr>"

definition sample_now :: datetime where
  "sample_now = \<lparr>day = 19744, hour = 12\<rparr>"

text \<open>A detector fitted on four readings, and one fitted on a constant batch.\<close>

definition sample_detector :: "(nat option, (nat \<times> real) option) detector" where
  "sample_detector =
     snd (fit (sample_env []) (init (sample_env []) 0.1 42) (values_frame [500, 500, 500, 150]))"

definition constant_detector :: "(nat option, (nat \<times> real) option) detector" where
  "constant_detector =
     snd (fit (sample_env []) (init (sample_env []) 0.1 42) (values_frame [500, 500, 500]))"

text \<open>The sample data with its dates already parsed.\<close>

definition stamped_data :: frame where
  "stamped_data = sample_data
     \<lparr>col_date := Some (map Stamp [\<lparr>day = 19744, hour = 6\<rparr>, \<lparr>day = 19744, hour = 14\<rparr>,
                                    \<lparr>day = 19744, hour = 22\<rparr>, \<lparr>day = 19742, hour = 6\<rparr>])\<rparr>"

section \<open>Rounding to the nearest double\<close>

lemma powi_Suc: "(2 :: real) powi (1 + k) = 2 * 2 powi k"
  by (simp add: power_int_add)

lemma powi_pred: "(2 :: real) powi (k - 1) = 2 powi k / 2"
  by (simp add: power_int_diff)

lemma halvings_bounds:
  "1 \<le> y \<Longrightarrow> 0 \<le> halvings n y \<and> halvings n y \<le> int n
     \<and> 2 powi (halvings n y) \<le> y
     \<and> (halvings n y < int n \<longrightarrow> y < 2 powi (halvings n y + 1))"
proof (induction n arbitrary: y)
  case 0
  then show ?case by simp
next
  case (Suc n)
  show ?case
  proof (cases "y < 2")
    case True
    then show ?thesis using Suc.prems by simp
  next
    case False
    then have h: "1 \<le> y / 2" by simp
    note IH = Suc.IH [OF h]
    let ?e = "halvings n (y / 2)"
    have e: "halvings (Suc n) y = 1 + ?e" using False by simp
    have p: "(2 :: real) powi (1 + ?e) = 2 * 2 powi ?e"
      by (rule powi_Suc)
    have p2: "(2 :: real) powi (1 + ?e + 1) = 2 * 2 powi (?e + 1)"
      using powi_Suc [of "?e + 1"] by (simp add: add.commute add.left_commute)
    show ?thesis unfolding e p p2 using IH by auto
  qed
qed

lemma doublings_bounds:
  "0 \<le> y \<Longrightarrow> y < 1 \<Longrightarrow> 0 \<le> doublings n y \<and> doublings n y \<le> int n
     \<and> (0 < n \<longrightarrow> 0 < doublings n y \<and> y < 2 powi (1 - doublings n y))
     \<and> (doublings n y < int n \<longrightarrow> 2 powi (- doublings n y) \<le> y)"
proof (induction n arbitrary: y)
  case 0
  then show ?case by simp
next
  case (Suc n)
  let ?d = "doublings n (2 * y)"
  have e: "doublings (Suc n) y = 1 + ?d" using Suc.prems by simp
  show ?case
  proof (cases "2 * y < 1")
    case True
    have h: "0 \<le> 2 * y" using Suc.prems by simp
    note IH = Suc.IH [OF h True]
    have p: "(2 :: real) powi (1 - (1 + ?d)) = 2 powi (1 - ?d) / 2"
    proof -
      have h: "1 - (1 + ?d) = 1 - ?d - 1" by simp
      show ?thesis unfolding h by (rule powi_pred)
    qed
    have p2: "(2 :: real) powi (- (1 + ?d)) = 2 powi (- ?d) / 2"
    proof -
      have h: "- (1 + ?d) = - ?d - 1" by simp
      show ?thesis unfolding h by (rule powi_pred)
    qed
    have n0: "n = 0 \<Longrightarrow> ?d = 0" by simp
    show ?thesis unfolding e p p2 using IH Suc.prems n0
      by (cases "n = 0") auto
  next
    case False
    then have d0: "?d = 0" by (cases n) simp_all
    show ?thesis unfolding e d0 using False Suc.prems by (simp add: power_int_minus)
  qed
qed

lemma binade_range: "- 1022 \<le> binade x \<and> binade x \<le> 1024"
proof (cases "1 \<le> \<bar>x\<bar>")
  case True
  then show ?thesis using halvings_bounds [OF True, of 1024] by (simp add: binade_def)
next
  case False
  then have "0 \<le> \<bar>x\<bar>" "\<bar>x\<bar> < 1" by simp_all
  from doublings_bounds [OF this, of 1022] show ?thesis using False by (simp add: binade_def)
qed

lemma binade_upper: "binade x \<le> 1023 \<Longrightarrow> \<bar>x\<bar> < 2 powi (binade x + 1)"
proof (cases "1 \<le> \<bar>x\<bar>")
  case True
  assume "binade x \<le> 1023"
  then show ?thesis using halvings_bounds [OF True, of 1024] True by (simp add: binade_def)
next
  case False
  then have "0 \<le> \<bar>x\<bar>" "\<bar>x\<bar> < 1" by simp_all
  from doublings_bounds [OF this, of 1022] show ?thesis using False
    by (simp add: binade_def algebra_simps)
qed

lemma binade_lower: "- 1021 \<le> binade x \<Longrightarrow> 2 powi (binade x) \<le> \<bar>x\<bar>"
proof (cases "1 \<le> \<bar>x\<bar>")
  case True
  then show ?thesis using halvings_bounds [OF True, of 1024] True by (simp add: binade_def)
next
  case False
  assume a: "- 1021 \<le> binade x"
  from False have "0 \<le> \<bar>x\<bar>" "\<bar>x\<bar> < 1" by simp_all
  from doublings_bounds [OF this, of 1022] show ?thesis using False a
    by (simp add: binade_def)
qed

lemma binade_eqI:
  assumes "2 powi e \<le> \<bar>x\<bar>" "\<bar>x\<bar> < 2 powi (e + 1)" "- 1022 \<le> e" "e \<le> 1023"
  shows "binade x = e"
proof (rule ccontr)
  assume ne: "binade x \<noteq> e"
  show False
  proof (cases "binade x < e")
    case True
    then have "binade x \<le> 1023" using assms(4) by simp
    then have "\<bar>x\<bar> < 2 powi (binade x + 1)" by (rule binade_upper)
    also have "\<dots> \<le> 2 powi e" using True by (intro power_int_increasing) simp_all
    finally show False using assms(1) by simp
  next
    case False
    then have g: "e + 1 \<le> binade x" using ne by simp
    then have "- 1021 \<le> binade x" using assms(3) by simp
    then have "2 powi (binade x) \<le> \<bar>x\<bar>" by (rule binade_lower)
    moreover have "2 powi (e + 1) \<le> (2 :: real) powi (binade x)"
      using g by (intro power_int_increasing) simp_all
    ultimately show False using assms(2) by simp
  qed
qed

lemma rint_of_int [simp]: "rint (of_int k) = k"
  by (simp add: rint_def)

lemma rint_floor: "\<lfloor>a\<rfloor> \<le> rint a \<and> rint a \<le> \<lfloor>a\<rfloor> + 1"
  by (simp add: rint_def Let_def)

lemma rint_mono:
  assumes "a \<le> b"
  shows "rint a \<le> rint b"
proof (cases "\<lfloor>a\<rfloor> = \<lfloor>b\<rfloor>")
  case True
  then show ?thesis using assms by (auto simp: rint_def Let_def)
next
  case False
  then have "\<lfloor>a\<rfloor> < \<lfloor>b\<rfloor>" using assms by (simp add: floor_mono le_neq_trans)
  then have "rint a \<le> \<lfloor>b\<rfloor>" using rint_floor [of a] by simp
  then show ?thesis using rint_floor [of b] by simp
qed

lemma rint_minus: "rint (- a) = - rint a"
proof (cases "a \<in> \<int>")
  case True
  then obtain k where "a = of_int k" by (auto elim: Ints_cases)
  then show ?thesis using rint_of_int [of "- k"] by simp
next
  case False
  then have ne: "a \<noteq> of_int \<lfloor>a\<rfloor>"
    by (metis Ints_of_int)
  then have f: "\<lfloor>- a\<rfloor> = - \<lfloor>a\<rfloor> - 1"
    by (simp add: floor_minus ceiling_altdef)
  have lt: "of_int \<lfloor>a\<rfloor> < a"
    using ne of_int_floor_le [of a] by linarith
  show ?thesis unfolding rint_def Let_def f using lt by auto
qed

lemma ulp_pos: "0 < ulp x"
  by (simp add: ulp_def)

lemma rint_zero [simp]: "rint 0 = 0"
  using rint_of_int [of 0] by simp

lemma rnd_zero [simp]: "rnd 0 = 0"
  by (simp add: rnd_def)

lemma binade_minus: "binade (- x) = binade x"
  by (simp add: binade_def)

lemma rnd_minus: "rnd (- x) = - rnd x"
  by (simp add: rnd_def ulp_def binade_minus rint_minus)

lemma rnd_fix: "x / ulp x = of_int k \<Longrightarrow> rnd x = x"
proof -
  assume a: "x / ulp x = of_int k"
  have "of_int k * ulp x = x"
    using ulp_pos [of x] a by (simp add: field_simps)
  then show ?thesis by (simp add: rnd_def a)
qed

lemma rnd_ratio: "x / ulp x = x * 2 powi (52 - binade x)"
proof -
  have "(2 :: real) powi (52 - binade x) = 1 / 2 powi (binade x - 52)"
    using power_int_minus [of "2 :: real" "binade x - 52"] by (simp add: field_simps)
  then show ?thesis by (simp add: ulp_def)
qed

lemma binade_top: "2 powi 1024 \<le> \<bar>x\<bar> \<Longrightarrow> binade x = 1024"
proof (rule ccontr)
  assume a: "2 powi 1024 \<le> \<bar>x\<bar>" and "binade x \<noteq> 1024"
  then have b: "binade x \<le> 1023" using binade_range [of x] by simp
  then have "\<bar>x\<bar> < 2 powi (binade x + 1)" by (rule binade_upper)
  also have "\<dots> \<le> 2 powi 1024" using b by (intro power_int_increasing) simp_all
  finally show False using a by simp
qed

lemma binade_mono:
  assumes "\<bar>x\<bar> \<le> \<bar>y\<bar>"
  shows "binade x \<le> binade y"
proof (rule ccontr)
  assume "\<not> binade x \<le> binade y"
  then have lt: "binade y + 1 \<le> binade x" by simp
  then have "binade y \<le> 1023" using binade_range [of x] by simp
  then have "\<bar>y\<bar> < 2 powi (binade y + 1)" by (rule binade_upper)
  also have "\<dots> \<le> 2 powi (binade x)" using lt by (intro power_int_increasing) simp_all
  also have "\<dots> \<le> \<bar>x\<bar>"
    using lt binade_range [of y] by (intro binade_lower) simp
  finally show False using assms by simp
qed

lemma rnd_dyadic:
  assumes "\<bar>k\<bar> \<le> 2 ^ 53" and "- 1074 \<le> j"
  shows "rnd (of_int k * 2 powi j) = of_int k * 2 powi j"
proof -
  let ?x = "of_int k * (2 :: real) powi j"
  let ?b = "binade ?x"
  have ratio: "?x / ulp ?x = of_int k * 2 powi (j + (52 - ?b))"
    unfolding rnd_ratio by (simp add: power_int_add)
  show ?thesis
  proof (cases "0 \<le> j + (52 - ?b)")
    case True
    then have "(2 :: real) powi (j + (52 - ?b)) = of_int (2 ^ nat (j + (52 - ?b)))"
      by (simp add: power_int_def)
    then have "?x / ulp ?x = of_int (k * 2 ^ nat (j + (52 - ?b)))"
      unfolding ratio by simp
    then show ?thesis by (rule rnd_fix)
  next
    case False
    then have jb: "j + 53 \<le> ?b" by simp
    then have "- 1021 \<le> ?b" using assms(2) by simp
    then have low: "2 powi ?b \<le> \<bar>?x\<bar>" by (rule binade_lower)
    have ax: "\<bar>?x\<bar> = of_int \<bar>k\<bar> * 2 powi j"
      by (simp add: abs_mult)
    have "(2 :: real) powi ?b = 2 powi (?b - j) * 2 powi j"
      using power_int_add [of "2 :: real" "?b - j" j] by simp
    then have "2 powi (?b - j) * (2 :: real) powi j \<le> of_int \<bar>k\<bar> * 2 powi j"
      using low ax by simp
    then have kk: "(2 :: real) powi (?b - j) \<le> of_int \<bar>k\<bar>"
      by (simp add: zero_less_power_int)
    have "(2 :: real) powi 53 \<le> 2 powi (?b - j)"
      using jb by (intro power_int_increasing) simp_all
    then have "(2 :: real) ^ 53 \<le> of_int \<bar>k\<bar>" using kk by simp
    then have "(2 :: int) ^ 53 \<le> \<bar>k\<bar>"
      by (metis of_int_le_iff of_int_numeral of_int_power)
    then have k53: "\<bar>k\<bar> = 2 ^ 53" using assms(1) by simp
    have "(2 :: real) powi (?b - j) \<le> 2 powi 53"
      using kk k53 by simp
    then have "?b - j \<le> 53"
      using power_int_le_imp_le_exp [of "2 :: real" "?b - j" 53] by simp
    then have bj: "j + (52 - ?b) = - 1" using jb by simp
    have "k = 2 ^ 53 \<or> k = - (2 ^ 53)" using k53 by (auto simp: abs_if split: if_splits)
    then have "?x / ulp ?x = of_int (k div 2)"
      unfolding ratio bj by (auto simp: power_int_minus)
    then show ?thesis by (rule rnd_fix)
  qed
qed

lemma rnd_same_binade:
  assumes "binade x = binade y" "x \<le> y"
  shows "rnd x \<le> rnd y"
proof -
  have u: "ulp x = ulp y" using assms(1) by (simp add: ulp_def)
  have "x / ulp y \<le> y / ulp y"
    using assms(2) ulp_pos [of y] by (simp add: divide_right_mono)
  then have "rint (x / ulp y) \<le> rint (y / ulp y)" by (rule rint_mono)
  then show ?thesis
    unfolding rnd_def u using ulp_pos [of y] by (simp add: mult_right_mono)
qed

lemma rnd_upper:
  assumes "0 \<le> x" "binade x \<le> 1023"
  shows "rnd x \<le> 2 powi (binade x + 1)"
proof -
  have "\<bar>x\<bar> < 2 powi (binade x + 1)" using assms(2) by (rule binade_upper)
  then have "x \<le> 2 powi (binade x + 1)" by simp
  then have "x * 2 powi (52 - binade x) \<le> 2 powi (binade x + 1) * 2 powi (52 - binade x)"
    by (intro mult_right_mono) simp_all
  also have "\<dots> = (2 :: real) powi 53"
    using power_int_add [of "2 :: real" "binade x + 1" "52 - binade x"] by simp
  finally have "x / ulp x \<le> of_int (2 ^ 53)"
    unfolding rnd_ratio by simp
  then have "rint (x / ulp x) \<le> 2 ^ 53"
    using rint_mono rint_of_int by metis
  then have "of_int (rint (x / ulp x)) * ulp x \<le> of_int (2 ^ 53) * ulp x"
    using ulp_pos [of x] by (intro mult_right_mono) simp_all
  also have "\<dots> = 2 powi (binade x + 1)"
    using power_int_add [of "2 :: real" 53 "binade x - 52"] by (simp add: ulp_def add.commute)
  finally show ?thesis by (simp add: rnd_def)
qed

lemma rnd_lower:
  assumes "0 \<le> x" "- 1021 \<le> binade x"
  shows "2 powi (binade x) \<le> rnd x"
proof -
  have "2 powi (binade x) \<le> \<bar>x\<bar>" using assms(2) by (rule binade_lower)
  then have "2 powi (binade x) \<le> x" using assms(1) by simp
  then have "2 powi (binade x) * 2 powi (52 - binade x) \<le> x * 2 powi (52 - binade x)"
    by (intro mult_right_mono) simp_all
  moreover have "2 powi (binade x) * 2 powi (52 - binade x) = (2 :: real) powi 52"
    using power_int_add [of "2 :: real" "binade x" "52 - binade x"] by simp
  ultimately have "of_int (2 ^ 52) \<le> x / ulp x"
    unfolding rnd_ratio by simp
  then have "2 ^ 52 \<le> rint (x / ulp x)"
    using rint_mono rint_of_int by metis
  then have "of_int (2 ^ 52) * ulp x \<le> of_int (rint (x / ulp x)) * ulp x"
    using ulp_pos [of x] by (intro mult_right_mono) simp_all
  moreover have "of_int (2 ^ 52) * ulp x = 2 powi (binade x)"
    using power_int_add [of "2 :: real" 52 "binade x - 52"] by (simp add: ulp_def)
  ultimately show ?thesis by (simp add: rnd_def)
qed

lemma rnd_nonneg: "0 \<le> x \<Longrightarrow> 0 \<le> rnd x"
proof -
  assume "0 \<le> x"
  then have "0 \<le> x / ulp x" using ulp_pos [of x] by simp
  then have "rint 0 \<le> rint (x / ulp x)" by (rule rint_mono)
  then show ?thesis using ulp_pos [of x] by (simp add: rnd_def)
qed

lemma rnd_mono_nonneg:
  assumes "0 \<le> x" "x \<le> y"
  shows "rnd x \<le> rnd y"
proof (cases "binade x = binade y")
  case True
  then show ?thesis using assms(2) by (rule rnd_same_binade)
next
  case False
  have "binade x \<le> binade y" using assms by (intro binade_mono) simp
  then have lt: "binade x + 1 \<le> binade y" using False by simp
  have bx: "binade x \<le> 1023" using lt binade_range [of y] by simp
  have ly: "- 1021 \<le> binade y" using lt binade_range [of x] by simp
  have "rnd x \<le> 2 powi (binade x + 1)" using assms(1) bx by (rule rnd_upper)
  also have "\<dots> \<le> 2 powi (binade y)" using lt by (intro power_int_increasing) simp_all
  also have "\<dots> \<le> rnd y" using assms by (intro rnd_lower ly) simp
  finally show ?thesis .
qed

lemma rnd_mono:
  assumes "x \<le> y"
  shows "rnd x \<le> rnd y"
proof (cases "0 \<le> x")
  case True
  then show ?thesis using assms by (rule rnd_mono_nonneg)
next
  case neg: False
  show ?thesis
  proof (cases "0 \<le> y")
    case True
    have "rnd x = - rnd (- x)" using rnd_minus [of "- x"] by simp
    moreover have "0 \<le> rnd (- x)" using neg by (intro rnd_nonneg) simp
    moreover have "0 \<le> rnd y" using True by (rule rnd_nonneg)
    ultimately show ?thesis by simp
  next
    case False
    then have "rnd (- y) \<le> rnd (- x)" using assms by (intro rnd_mono_nonneg) simp_all
    then show ?thesis by (simp add: rnd_minus)
  qed
qed

lemma rint_abs_le:
  assumes "\<bar>a\<bar> \<le> of_int n"
  shows "\<bar>rint a\<bar> \<le> n"
proof -
  have "a \<le> of_int n" "of_int (- n) \<le> a" using assms by simp_all
  then have "rint a \<le> n" "- n \<le> rint a"
    using rint_mono rint_of_int by metis+
  then show ?thesis by simp
qed

lemma rnd_idem: "rnd (rnd x) = rnd x"
proof (cases "binade x \<le> 1023")
  case True
  then have "\<bar>x\<bar> < 2 powi (binade x + 1)" by (rule binade_upper)
  then have "\<bar>x\<bar> * 2 powi (52 - binade x) \<le> 2 powi (binade x + 1) * 2 powi (52 - binade x)"
    by (intro mult_right_mono) simp_all
  also have "\<dots> = (2 :: real) powi 53"
    using power_int_add [of "2 :: real" "binade x + 1" "52 - binade x"] by simp
  finally have "\<bar>x / ulp x\<bar> \<le> of_int (2 ^ 53)"
    unfolding rnd_ratio by (simp add: abs_mult)
  then have k: "\<bar>rint (x / ulp x)\<bar> \<le> 2 ^ 53" by (rule rint_abs_le)
  have j: "- 1074 \<le> binade x - 52" using binade_range [of x] by simp
  show ?thesis
    using rnd_dyadic [OF k j] by (simp add: rnd_def ulp_def)
next
  case False
  then have b: "binade x = 1024" using binade_range [of x] by simp
  then have big: "2 powi 1024 \<le> \<bar>x\<bar>" using binade_lower [of x] by simp
  have "\<bar>rnd x\<bar> = rnd \<bar>x\<bar>"
    using rnd_minus [of x] rnd_nonneg [of x] rnd_nonneg [of "- x"] by (auto simp: abs_if)
  moreover have "2 powi (binade \<bar>x\<bar>) \<le> rnd \<bar>x\<bar>"
    using b by (intro rnd_lower) (simp_all add: binade_def)
  moreover have "binade \<bar>x\<bar> = 1024" using b by (simp add: binade_def)
  ultimately have "2 powi 1024 \<le> \<bar>rnd x\<bar>" by simp
  then have "binade (rnd x) = 1024" by (rule binade_top)
  then have "ulp (rnd x) = ulp x" using b by (simp add: ulp_def)
  then have "rnd x / ulp (rnd x) = of_int (rint (x / ulp x))"
    using ulp_pos [of x] by (simp add: rnd_def)
  then show ?thesis by (rule rnd_fix)
qed

lemma rnd_eval:
  assumes "2 powi e \<le> \<bar>x\<bar>" "\<bar>x\<bar> < 2 powi (e + 1)" "- 1022 \<le> e" "e \<le> 1023"
  shows "rnd x = of_int (rint (x * 2 powi (52 - e))) * 2 powi (e - 52)"
  using binade_eqI [OF assms] by (simp add: rnd_def rnd_ratio) (simp add: ulp_def)

lemma rnd_of_int: "\<bar>k\<bar> \<le> 2 ^ 53 \<Longrightarrow> rnd (of_int k) = of_int k"
  using rnd_dyadic [of k 0] by simp

lemma rnd_numeral [simp]: "(numeral n :: int) \<le> 2 ^ 53 \<Longrightarrow> rnd (numeral n) = numeral n"
  using rnd_of_int [of "numeral n"] by simp

lemma rnd_neg_numeral [simp]:
  "(numeral n :: int) \<le> 2 ^ 53 \<Longrightarrow> rnd (- numeral n) = - numeral n"
  using rnd_of_int [of "- numeral n"] by simp

lemma rnd_one [simp]: "rnd 1 = 1"
  using rnd_of_int [of 1] by simp

lemma rnd_half [simp]: "rnd (1 / 2) = 1 / 2"
  using rnd_dyadic [of 1 "- 1"] by (simp add: power_int_minus)

section \<open>Evaluation rules\<close>

lemmas fl_defs = fsub_def fgt_def fge_def np_maximum_def np_minimum_def np_clip_def py_max_def
  inf_of_sign_def rint_def

lemmas stat_defs = mean_def pd_mean_def pd_std_def sum_sq_dev_def np_std_def zscore_def

lemmas frame_defs = values_frame_def empty_frame_def len_def filter_rows_def select_def
  column_or_def

lemmas combine_defs = combine_scores_def iso_normalized_def z_normalized_def
  spc_normalized_def arr_min_def arr_max_def

section \<open>Evaluating double arithmetic\<close>

lemma rnd_pow2: "- 1074 \<le> e \<Longrightarrow> rnd (2 powi e) = 2 powi e"
  using rnd_dyadic [of 1 e] by simp

lemma to_double_Fin: "\<bar>rnd x\<bar> < 2 ^ 1024 \<Longrightarrow> to_double x = Fin (rnd x)"
  by (simp add: to_double_def Let_def)

lemma to_double_not_NaN [simp]: "to_double x \<noteq> NaN"
  by (simp add: to_double_def Let_def)

lemma to_double_between:
  assumes "lo \<le> x" "x \<le> hi" "rnd lo = lo" "rnd hi = hi" "- (2 ^ 1024) < lo" "hi < 2 ^ 1024"
  shows "to_double x = Fin (rnd x) \<and> lo \<le> rnd x \<and> rnd x \<le> hi"
proof -
  have l: "lo \<le> rnd x" using rnd_mono [OF assms(1)] assms(3) by simp
  have h: "rnd x \<le> hi" using rnd_mono [OF assms(2)] assms(4) by simp
  have "\<bar>rnd x\<bar> < 2 ^ 1024" using l h assms(5,6) by (simp add: abs_if)
  then show ?thesis using l h by (simp add: to_double_Fin)
qed

lemma to_double_fix: "rnd x = x \<Longrightarrow> \<bar>x\<bar> < 2 ^ 1024 \<Longrightarrow> to_double x = Fin x"
  by (simp add: to_double_def Let_def)

lemma to_double_zero [simp]: "to_double 0 = Fin 0"
  by (simp add: to_double_fix)

lemma to_double_one [simp]: "to_double 1 = Fin 1"
  by (simp add: to_double_fix)

lemma to_double_half [simp]: "to_double (1 / 2) = Fin (1 / 2)"
  by (simp add: to_double_fix)

lemma to_double_numeral [simp]:
  "(numeral n :: int) \<le> 2 ^ 53 \<Longrightarrow> to_double (numeral n) = Fin (numeral n)"
proof -
  assume a: "(numeral n :: int) \<le> 2 ^ 53"
  then have "(numeral n :: real) \<le> 2 ^ 53"
    by (metis of_int_le_iff of_int_numeral of_int_power)
  then have "\<bar>numeral n :: real\<bar> < 2 ^ 1024"
    by (simp add: order_le_less_trans)
  then show ?thesis using a by (simp add: to_double_fix)
qed

lemma to_double_neg_numeral [simp]:
  "(numeral n :: int) \<le> 2 ^ 53 \<Longrightarrow> to_double (- numeral n) = Fin (- numeral n)"
proof -
  assume a: "(numeral n :: int) \<le> 2 ^ 53"
  then have "(numeral n :: real) \<le> 2 ^ 53"
    by (metis of_int_le_iff of_int_numeral of_int_power)
  then have "\<bar>- numeral n :: real\<bar> < 2 ^ 1024"
    by (simp add: order_le_less_trans)
  then show ?thesis using a by (simp add: to_double_fix)
qed

lemma fadd_NaN [simp]: "fadd a NaN = NaN" "fadd NaN a = NaN"
  by (cases a; simp)+

lemma fmul_NaN [simp]: "fmul a NaN = NaN" "fmul NaN a = NaN"
  by (cases a; simp)+

lemma fdiv_NaN [simp]: "fdiv a NaN = NaN" "fdiv NaN a = NaN"
  by (cases a; simp)+

text \<open>The doubles nearest to 0.3, 0.2 and 1e-8.\<close>

lemma rnd_3_10: "rnd (3 / 10) = 5404319552844595 / 2 ^ 54"
proof -
  have "rnd (3 / 10) = of_int (rint ((3 / 10) * 2 powi (52 - (- 2)))) * 2 powi (- 2 - 52)"
    by (rule rnd_eval) (simp_all add: power_int_minus)
  also have "\<dots> = 5404319552844595 / 2 ^ 54"
    by (simp add: rint_def Let_def power_int_minus)
  finally show ?thesis .
qed

lemma rnd_1_5: "rnd (1 / 5) = 3602879701896397 / 2 ^ 54"
proof -
  have "rnd (1 / 5) = of_int (rint ((1 / 5) * 2 powi (52 - (- 3)))) * 2 powi (- 3 - 52)"
    by (rule rnd_eval) (simp_all add: power_int_minus)
  also have "\<dots> = 3602879701896397 / 2 ^ 54"
    by (simp add: rint_def Let_def power_int_minus)
  finally show ?thesis .
qed

lemma rnd_1e8: "rnd (1 / 10 ^ 8) = 3022314549036573 / 2 ^ 78"
proof -
  have "rnd (1 / 10 ^ 8) = of_int (rint ((1 / 10 ^ 8) * 2 powi (52 - (- 27)))) * 2 powi (- 27 - 52)"
    by (rule rnd_eval) (simp_all add: power_int_minus)
  also have "\<dots> = 3022314549036573 / 2 ^ 78"
    by (simp add: rint_def Let_def power_int_minus)
  finally show ?thesis .
qed

lemma rnd_neg_one [simp]: "rnd (- 1) = - 1"
  using rnd_minus [of 1] by simp

lemma to_double_unit: "\<bar>x\<bar> \<le> 1 \<Longrightarrow> to_double x = Fin (rnd x)"
  using to_double_between [of "- 1" x 1] by (simp add: abs_le_iff)

lemma rnd_product_3_10: "rnd (5404319552844595 / 2 ^ 54 * (7 / 8)) = 4728779608739021 / 2 ^ 54"
proof -
  have "rnd (5404319552844595 / 2 ^ 54 * (7 / 8))
      = of_int (rint ((5404319552844595 / 2 ^ 54 * (7 / 8)) * 2 powi (52 - (- 2))))
          * 2 powi (- 2 - 52)"
    by (rule rnd_eval) (simp_all add: power_int_minus)
  also have "\<dots> = 4728779608739021 / 2 ^ 54"
    by (simp add: rint_def Let_def power_int_minus)
  finally show ?thesis .
qed

lemma rnd_product_1_5: "rnd (3602879701896397 / 2 ^ 54 * (3 / 16)) = 1351079888211149 / 2 ^ 55"
proof -
  have "rnd (3602879701896397 / 2 ^ 54 * (3 / 16))
      = of_int (rint ((3602879701896397 / 2 ^ 54 * (3 / 16)) * 2 powi (52 - (- 5))))
          * 2 powi (- 5 - 52)"
    by (rule rnd_eval) (simp_all add: power_int_minus)
  also have "\<dots> = 1351079888211149 / 2 ^ 55"
    by (simp add: rint_def Let_def power_int_minus)
  finally show ?thesis .
qed

lemma rnd_sum_first: "rnd (1 / 2 + 4728779608739021 / 2 ^ 54) = 3433994715870003 / 2 ^ 52"
proof -
  have "rnd (1 / 2 + 4728779608739021 / 2 ^ 54)
      = of_int (rint ((1 / 2 + 4728779608739021 / 2 ^ 54) * 2 powi (52 - (- 1))))
          * 2 powi (- 1 - 52)"
    by (rule rnd_eval) (simp_all add: power_int_minus)
  also have "\<dots> = 3433994715870003 / 2 ^ 52"
    by (simp add: rint_def Let_def power_int_minus)
  finally show ?thesis .
qed

lemma rnd_sum_second:
  "rnd (3433994715870003 / 2 ^ 52 + 1351079888211149 / 2 ^ 55) = 7205759403792793 / 2 ^ 53"
proof -
  have "rnd (3433994715870003 / 2 ^ 52 + 1351079888211149 / 2 ^ 55)
      = of_int (rint ((3433994715870003 / 2 ^ 52 + 1351079888211149 / 2 ^ 55)
                      * 2 powi (52 - (- 1)))) * 2 powi (- 1 - 52)"
    by (rule rnd_eval) (simp_all add: power_int_minus)
  also have "\<dots> = 7205759403792793 / 2 ^ 53"
    by (simp add: rint_def Let_def power_int_minus)
  finally show ?thesis .
qed

lemma to_double_3_10: "to_double (3 / 10) = Fin (5404319552844595 / 2 ^ 54)"
  using to_double_unit [of "3 / 10"] unfolding rnd_3_10 by simp

lemma to_double_1_5: "to_double (1 / 5) = Fin (3602879701896397 / 2 ^ 54)"
  using to_double_unit [of "1 / 5"] unfolding rnd_1_5 by simp

lemma to_double_1e8: "to_double (1 / 10 ^ 8) = Fin (3022314549036573 / 2 ^ 78)"
  using to_double_unit [of "1 / 10 ^ 8"] unfolding rnd_1e8 by simp

lemma to_double_product_3_10:
  "to_double (5404319552844595 / 2 ^ 54 * (7 / 8)) = Fin (4728779608739021 / 2 ^ 54)"
  using to_double_unit [of "5404319552844595 / 2 ^ 54 * (7 / 8)"]
  unfolding rnd_product_3_10 by simp

lemma to_double_product_1_5:
  "to_double (3602879701896397 / 2 ^ 54 * (3 / 16)) = Fin (1351079888211149 / 2 ^ 55)"
  using to_double_unit [of "3602879701896397 / 2 ^ 54 * (3 / 16)"]
  unfolding rnd_product_1_5 by simp

lemma to_double_sum_first:
  "to_double (1 / 2 + 4728779608739021 / 2 ^ 54) = Fin (3433994715870003 / 2 ^ 52)"
  using to_double_unit [of "1 / 2 + 4728779608739021 / 2 ^ 54"]
  unfolding rnd_sum_first by simp

lemma to_double_sum_second:
  "to_double (3433994715870003 / 2 ^ 52 + 1351079888211149 / 2 ^ 55)
     = Fin (7205759403792793 / 2 ^ 53)"
  using to_double_unit [of "3433994715870003 / 2 ^ 52 + 1351079888211149 / 2 ^ 55"]
  unfolding rnd_sum_second by simp

lemmas double_evals = to_double_3_10 [simplified] to_double_1_5 [simplified]
  to_double_1e8 [simplified] to_double_product_3_10 [simplified]
  to_double_product_1_5 [simplified] to_double_sum_first [simplified]
  to_double_sum_second [simplified]






section \<open>The score combiner\<close>

lemma to_double_idem: "to_double x = Fin r \<Longrightarrow> to_double r = Fin r"
  by (auto simp: to_double_def Let_def rnd_idem split: if_splits)

lemma iso_normalized_single: "iso_normalized [v] = [Fin 1]"
proof -
  let ?c = "3022314549036573 / 2 ^ 78 :: real"
  have a: "fadd (Fin 0) (Fin ?c) = Fin ?c"
    using to_double_idem [OF to_double_1e8] by simp
  have b: "fdiv (Fin 0) (Fin ?c) = Fin 0" by simp
  have "iso_normalized [v] = [fsub (Fin 1) (fdiv (fsub (Fin v) (Fin v))
      (fadd (fsub (Fin v) (Fin v)) (to_double (1 / 10 ^ 8))))]"
    by (simp add: iso_normalized_def arr_min_def arr_max_def)
  also have "fsub (Fin v) (Fin v) = Fin 0" by (simp add: fsub_def)
  finally show ?thesis unfolding to_double_1e8 a b by (simp add: fsub_def)
qed

text \<open>
  The scores are doubles. For a single reading with isolation score 0.25, z-score 3.5 and
  SPC score 0.5625 the normalized components are 1, 0.875 and 0.1875, and the weighted sum
  evaluates to \<open>7205759403792793 / 2^53\<close>, printed 0.7999999999999999: one unit in the last
  place below 0.8, the value of the sum over the reals.
\<close>

lemma combine_scores_rounding_example:
  "combine_scores [1 / 4] [Fin (7 / 2)] [Fin (9 / 16)] = Inr [Fin (7205759403792793 / 2 ^ 53)]
   \<and> iso_normalized [1 / 4] = [Fin 1]
   \<and> z_normalized [Fin (7 / 2)] = [Fin (7 / 8)]
   \<and> spc_normalized [Fin (9 / 16)] = [Fin (3 / 16)]
   \<and> (7205759403792793 / 2 ^ 53 :: real) \<noteq> 0.5 * 1 + 0.3 * (7 / 8) + 0.2 * (3 / 16)
   \<and> (0.5 * 1 + 0.3 * (7 / 8) + 0.2 * (3 / 16) :: real) = 0.8"
proof -
  have r78: "rnd (7 / 8) = 7 / 8"
    using rnd_dyadic [of 7 "- 3"] by (simp add: power_int_minus)
  have r316: "rnd (3 / 16) = 3 / 16"
    using rnd_dyadic [of 3 "- 4"] by (simp add: power_int_minus)
  have z: "z_normalized [Fin (7 / 2)] = [Fin (7 / 8)]"
    using to_double_unit [of "7 / 8"]
    by (simp add: z_normalized_def r78 np_clip_def np_maximum_def np_minimum_def)
  have s: "spc_normalized [Fin (9 / 16)] = [Fin (3 / 16)]"
    using to_double_unit [of "3 / 16"]
    by (simp add: spc_normalized_def r316 np_clip_def np_maximum_def np_minimum_def)
  have i: "iso_normalized [1 / 4] = [Fin 1]" by (rule iso_normalized_single)
  have c: "combine_scores [1 / 4] [Fin (7 / 2)] [Fin (9 / 16)]
      = Inr [Fin (7205759403792793 / 2 ^ 53)]"
    unfolding combine_scores_def i z s by (simp add: double_evals)
  show ?thesis using c i z s by simp
qed














section \<open>The severity classifier\<close>





section \<open>The two-phase contract of the detector\<close>

lemmas feature_defs = extract_features_def column_stack_def feature_columns_def
  rolling_mean_def rolling_std_def window3_def fillna0_def

lemmas sample_env_defs = sample_env_def sample_check_def sample_to_datetime_def
  sample_strftime_date_def sample_dates_def

lemma length_zscore: "length (zscore xs) = length xs"
  by (simp add: zscore_def)

lemma length_spc_analysis: "length (spc_analysis xs) = length xs"
  by (simp add: spc_analysis_def Let_def)

lemma length_classify_severity: "length (classify_severity th scores) = length scores"
  by (induction scores) simp_all

lemma combine_scores_length:
  "combine_scores isos zs spcs = Inr combined \<Longrightarrow> length combined = length isos"
  by (auto simp: combine_scores_def iso_normalized_def z_normalized_def spc_normalized_def
      split: if_splits)

lemma combine_scores_succeeds:
  assumes "isos \<noteq> []" "length zs = length isos" "length spcs = length isos"
  shows "\<exists>combined. combine_scores isos zs spcs = Inr combined"
  using assms by (simp add: combine_scores_def)

lemma detect_anomalies_frame: "snd (detect_anomalies E d data) = data"
  by (simp add: detect_anomalies_def Let_def split: sum.splits)

lemma sample_fit:
  "fit (sample_env []) (init (sample_env []) 0.1 42) (values_frame [500, 500, 500, 150]) =
     (None, \<lparr>contamination = 0.1, random_state = 42, isolation_forest = Some (2, 825 / 2),
             scaler = Some 2, fitted = True,
             thresholds = \<lparr>critical = 0.8, warning = 0.5, info = 0.3\<rparr>\<rparr>)"
  by (simp add: fit_def init_def feature_defs frame_defs sample_env_defs mean_def upt_rec)

lemma sample_detector_eq:
  "sample_detector =
     \<lparr>contamination = 0.1, random_state = 42, isolation_forest = Some (2, 825 / 2),
      scaler = Some 2, fitted = True,
      thresholds = \<lparr>critical = 0.8, warning = 0.5, info = 0.3\<rparr>\<rparr>"
  by (simp add: sample_detector_def sample_fit)

text \<open>A fitted detector rejects the empty batch in every environment whose outlier model
  returns one score per row: if the library accepts the empty matrix, the minimum of the
  empty score array raises.\<close>

lemma detect_anomalies_empty_batch:
  assumes "fitted d" "len data = 0"
    and "\<And>X isos. decision_function E (isolation_forest d) X = Inr isos
            \<Longrightarrow> length isos = length X"
  shows "\<exists>e. fst (detect_anomalies E d data) = Inl e"
proof -
  have X: "extract_features E data = []"
    using assms(2) by (simp add: extract_features_def column_stack_def)
  show ?thesis
  proof (cases "transform E (scaler d) []")
    case (Inl e)
    then show ?thesis using assms(1) X by (simp add: detect_anomalies_def)
  next
    case tr: (Inr X')
    show ?thesis
    proof (cases "decision_function E (isolation_forest d) X'")
      case (Inl e)
      then show ?thesis using assms(1) X tr by (simp add: detect_anomalies_def)
    next
      case df: (Inr isos)
      show ?thesis
      proof (cases "predict E (isolation_forest d) X'")
        case (Inl e)
        then show ?thesis using assms(1) X tr df by (simp add: detect_anomalies_def)
      next
        case pr: (Inr p)
        have "length (zscore (col_energyOutput data)) = 0"
          using assms(2) by (simp add: length_zscore len_def)
        then have "\<exists>e. combine_scores isos (map fabs (zscore (col_energyOutput data)))
                        (spc_analysis (col_energyOutput data)) = Inl e"
          by (auto simp: combine_scores_def)
        then show ?thesis
          using assms(1) X tr df pr by (auto simp: detect_anomalies_def Let_def)
      qed
    qed
  qed
qed

text \<open>
  Claim C3, as stated, fails: after a successful \<open>fit\<close>, \<open>detect_anomalies\<close> on a batch
  without readings raises instead of returning scores.
\<close>

theorem detect_after_fit_counterexample:
  "fst (fit (sample_env []) (init (sample_env []) 0.1 42) (values_frame [500, 500, 500, 150]))
     = None
   \<and> fitted sample_detector
   \<and> fst (detect_anomalies (sample_env []) sample_detector (values_frame []))
       = Inl (ValueError ''Found array with 0 sample(s)'')"
proof -
  have a: "fst (fit (sample_env []) (init (sample_env []) 0.1 42)
      (values_frame [500, 500, 500, 150])) = None"
    by (simp add: sample_fit)
  have b: "fitted sample_detector"
    by (simp add: sample_detector_eq)
  have c: "fst (detect_anomalies (sample_env []) sample_detector (values_frame []))
       = Inl (ValueError ''Found array with 0 sample(s)'')"
    by (simp add: sample_detector_eq detect_anomalies_def feature_defs frame_defs
        sample_env_defs)
  show ?thesis using a b c by blast
qed

text \<open>
  Claim C3, amended. A detector on which \<open>fit\<close> has not completed (a new one in
  particular) makes \<open>detect_anomalies\<close> raise \<open>ValueError('Model must be fitted before
  detecting anomalies')\<close>, the code's not-fitted error, and no scores are returned. A
  \<open>fit\<close> that returns sets the flag. On a fitted detector and a batch of at least one
  reading whose feature matrix the scaler and the forest accept, returning one score per
  row, \<open>detect_anomalies\<close> returns a frame with one scored row per reading. The result is a
  function of the seed, the contamination, the training frame and the batch.
\<close>

theorem detect_anomalies_two_phase:
  fixes E :: "('s, 'f) env"
  shows "(\<not> fitted d \<longrightarrow>
            detect_anomalies E d data =
              (Inl (ValueError ''Model must be fitted before detecting anomalies''), data))
       \<and> \<not> fitted (init E c r)
       \<and> (fst (fit E d train) = None \<longrightarrow> fitted (snd (fit E d train)))
       \<and> (fitted d \<and> 0 < len data
            \<and> transform E (scaler d) (extract_features E data) = Inr X
            \<and> decision_function E (isolation_forest d) X = Inr isos
            \<and> predict E (isolation_forest d) X = Inr p
            \<and> length isos = len data
          \<longrightarrow> (\<exists>result combined.
                 detect_anomalies E d data = (Inr result, data)
               \<and> len result = len data
               \<and> col_isolation_score result = Some isos
               \<and> col_anomaly_score result = Some combined
               \<and> length combined = len data
               \<and> col_severity result = Some (classify_severity (thresholds d) combined)))
       \<and> (d1 = snd (fit E (init E c r) train) \<and> d2 = snd (fit E (init E c r) train)
          \<longrightarrow> detect_anomalies E d1 data = detect_anomalies E d2 data)"
proof -
  have unfitted: "detect_anomalies E d data =
      (Inl (ValueError ''Model must be fitted before detecting anomalies''), data)"
    if "\<not> fitted d"
    using that by (simp add: detect_anomalies_def)
  have new: "\<not> fitted (init E c r)"
    by (simp add: init_def)
  have flag: "fitted (snd (fit E d train))" if "fst (fit E d train) = None"
    using that by (auto simp: fit_def Let_def split: sum.splits prod.splits)
  have scored: "\<exists>result combined.
                 detect_anomalies E d data = (Inr result, data)
               \<and> len result = len data
               \<and> col_isolation_score result = Some isos
               \<and> col_anomaly_score result = Some combined
               \<and> length combined = len data
               \<and> col_severity result = Some (classify_severity (thresholds d) combined)"
    if h: "fitted d" "0 < len data"
      "transform E (scaler d) (extract_features E data) = Inr X"
      "decision_function E (isolation_forest d) X = Inr isos"
      "predict E (isolation_forest d) X = Inr p"
      "length isos = len data"
  proof -
    have ne: "isos \<noteq> []" using h(2,6) by auto
    have lz: "length (map fabs (zscore (col_energyOutput data))) = length isos"
      using h(6) by (simp add: length_zscore len_def)
    have ls: "length (spc_analysis (col_energyOutput data)) = length isos"
      using h(6) by (simp add: length_spc_analysis len_def)
    obtain combined where c: "combine_scores isos (map fabs (zscore (col_energyOutput data)))
        (spc_analysis (col_energyOutput data)) = Inr combined"
      using combine_scores_succeeds [OF ne lz ls] by blast
    have lc: "length combined = len data"
      using combine_scores_length [OF c] h(6) by simp
    show ?thesis
      using h c lc by (simp add: detect_anomalies_def Let_def len_def)
  qed
  show ?thesis using unfitted new flag scored by blast
qed

theorem detect_anomalies_two_phase_witness:
  "\<not> fitted (init (sample_env []) 0.1 42)
   \<and> detect_anomalies (sample_env []) (init (sample_env []) 0.1 42)
        (values_frame [500, 500, 500, 150]) =
       (Inl (ValueError ''Model must be fitted before detecting anomalies''),
        values_frame [500, 500, 500, 150])
   \<and> fitted sample_detector
   \<and> (\<exists>result. detect_anomalies (sample_env []) sample_detector
                  (values_frame [500, 500, 500, 150])
                = (Inr result, values_frame [500, 500, 500, 150])
        \<and> len result = 4)"
proof -
  let ?E = "sample_env [] :: (nat option, (nat \<times> real) option) env"
  let ?data = "values_frame [500, 500, 500, 150]"
  let ?X = "[[500, 0], [500, 0], [500, 0], [150, - 350 :: real]]"
  let ?isos = "[- (175 / 2), - (175 / 2), - (175 / 2), - (525 / 2) :: real]"
  note T = detect_anomalies_two_phase [where E = ?E and d = "init ?E 0.1 42" and c = "0.1"
      and r = 42 and data = ?data and train = ?data]
  note U = detect_anomalies_two_phase [where E = ?E and d = sample_detector and data = ?data
      and X = ?X and isos = ?isos and p = "[1, 1, 1, 1]"]
  have new: "\<not> fitted (init ?E 0.1 42)" using T by blast
  have raise: "detect_anomalies ?E (init ?E 0.1 42) ?data =
      (Inl (ValueError ''Model must be fitted before detecting anomalies''), ?data)"
    using T new by blast
  have fit_ok: "fst (fit ?E (init ?E 0.1 42) ?data) = None"
    by (simp add: sample_fit)
  have fl: "fitted sample_detector"
    using T fit_ok unfolding sample_detector_def by blast
  have X: "extract_features ?E ?data = ?X"
    by (simp add: feature_defs frame_defs upt_rec)
  have h: "fitted sample_detector \<and> 0 < len ?data
        \<and> transform ?E (scaler sample_detector) (extract_features ?E ?data) = Inr ?X
        \<and> decision_function ?E (isolation_forest sample_detector) ?X = Inr ?isos
        \<and> predict ?E (isolation_forest sample_detector) ?X = Inr [1, 1, 1, 1]
        \<and> length ?isos = len ?data"
    unfolding X using fl by (simp add: sample_detector_eq sample_env_defs frame_defs)
  from U h have "\<exists>result combined.
      detect_anomalies ?E sample_detector ?data = (Inr result, ?data)
      \<and> len result = len ?data
      \<and> col_isolation_score result = Some ?isos
      \<and> col_anomaly_score result = Some combined
      \<and> length combined = len ?data
      \<and> col_severity result = Some (classify_severity (thresholds sample_detector) combined)"
    by blast
  then have "\<exists>result. detect_anomalies ?E sample_detector ?data = (Inr result, ?data)
      \<and> len result = 4"
    by (auto simp: frame_defs)
  with new raise fl show ?thesis by blast
qed

section \<open>Constant batches\<close>

lemma constant_fit:
  "constant_detector =
     \<lparr>contamination = 0.1, random_state = 42, isolation_forest = Some (2, 500),
      scaler = Some 2, fitted = True,
      thresholds = \<lparr>critical = 0.8, warning = 0.5, info = 0.3\<rparr>\<rparr>"
  by (simp add: constant_detector_def fit_def init_def feature_defs frame_defs
      sample_env_defs mean_def upt_rec)

lemma constant_zscore: "map fabs (zscore [500, 500, 500]) = [NaN, NaN, NaN]"
  by (simp add: stat_defs fl_defs)

lemma constant_spc: "spc_analysis [500, 500, 500] = [NaN, NaN, NaN]"
  by (simp add: spc_analysis_def stat_defs fl_defs)

text \<open>
  Claim C4 on the code. For the batch 500, 500, 500 (standard deviation zero) scoring
  returns, but the z-scores are NaN and not 0, and so are the SPC scores and the combined
  scores: the divisions by the standard deviation in \<open>stats.zscore\<close> and in
  \<open>_spc_analysis\<close> are \<open>0/0\<close>; only the min-max division of \<open>_combine_scores\<close> carries the
  \<open>1e-8\<close> guard. Every reading is then labelled Normal and not flagged.
\<close>

theorem constant_batch_scores_nan:
  "\<exists>result. detect_anomalies (sample_env []) constant_detector (values_frame [500, 500, 500])
       = (Inr result, values_frame [500, 500, 500])
     \<and> col_z_score result = Some [NaN, NaN, NaN]
     \<and> col_spc_score result = Some [NaN, NaN, NaN]
     \<and> col_anomaly_score result = Some [NaN, NaN, NaN]
     \<and> col_anomaly_flag result = Some [False, False, False]
     \<and> col_severity result = Some [''Normal'', ''Normal'', ''Normal'']"
proof -
  have X: "extract_features (sample_env []) (values_frame [500, 500, 500])
      = [[500, 0], [500, 0], [500, 0]]"
    by (simp add: feature_defs frame_defs upt_rec)
  have c: "combine_scores [0, 0, 0] [NaN, NaN, NaN] [NaN, NaN, NaN] = Inr [NaN, NaN, NaN]"
    by (simp add: combine_defs fl_defs)
  have e: "col_energyOutput (values_frame [500, 500, 500]) = [500, 500, 500]"
    by (simp add: frame_defs)
  show ?thesis
    unfolding detect_anomalies_def X e constant_zscore constant_spc
    by (simp add: constant_fit sample_env_defs c fl_defs Let_def)
qed

section \<open>Feature extraction\<close>








section \<open>Formatted alerts\<close>

lemma length_alert_rows: "length (alert_rows E t daily mean_output std_output) = len daily"
  by (simp add: alert_rows_def Let_def)


lemma length_format_alert_data: "length (format_alert_data E t daily) = len daily"
  by (simp add: format_alert_data_def length_alert_rows)

lemma to_double_minus: "to_double (- x) = fneg (to_double x)"
  by (simp add: to_double_def rnd_minus Let_def)




lemma to_double_neg_half [simp]: "to_double (- (1 / 2)) = Fin (- (1 / 2))"
  by (simp add: to_double_minus)




















text \<open>
  Claim C10, as stated, fails for a single alert whose energy value is 0: the deviation is
  \<open>0/0\<close>, so \<open>deviation_percentage\<close> is NaN and not 0.0.
\<close>

theorem format_alert_data_single_counterexample:
  "map deviation_percentage (format_alert_data (sample_env []) sample_now (values_frame [0]))
     = [NaN]
   \<and> map trend_direction (format_alert_data (sample_env []) sample_now (values_frame [0]))
     = [''Single Point'']"
  by (simp add: format_alert_data_def alert_rows_def frame_defs stat_defs fl_defs upt_rec Let_def)

text \<open>
  Claim C10, amended. For every export day with exactly one alert, \<open>format_alert_data\<close>
  yields one alert with \<open>alert_id\<close> 1 and \<open>trend_direction\<close> "Single Point"; the sample
  standard deviation of the single value is NaN, so \<open>expected_max\<close> is NaN while
  \<open>expected_min\<close> evaluates to 0; \<open>deviation_percentage\<close> is 0.0 when the alert's energy
  value is not zero, and NaN when it is zero.
\<close>

theorem format_alert_data_single:
  fixes E :: "('s, 'f) env"
  assumes "len daily = 1"
  shows "\<exists>a. format_alert_data E t daily = [a]
           \<and> alert_id a = 1
           \<and> energy_kwh a = hd (col_energyOutput daily)
           \<and> trend_direction a = ''Single Point''
           \<and> pd_std (col_energyOutput daily) = NaN
           \<and> expected_max a = NaN
           \<and> expected_min a = Fin 0
           \<and> deviation_percentage a = (if energy_kwh a = 0 then NaN else Fin 0)"
proof -
  obtain v where v: "col_energyOutput daily = [v]"
    using assms by (auto simp: len_def length_Suc_conv)
  show ?thesis
    using assms
    by (simp add: format_alert_data_def alert_rows_def v stat_defs fl_defs Let_def)
qed

theorem format_alert_data_single_witness:
  "len (values_frame [500]) = 1
   \<and> map expected_max (format_alert_data (sample_env []) sample_now (values_frame [500]))
       = [NaN]
   \<and> map expected_min (format_alert_data (sample_env []) sample_now (values_frame [500]))
       = [Fin 0]
   \<and> map deviation_percentage
        (format_alert_data (sample_env []) sample_now (values_frame [500])) = [Fin 0]
   \<and> map trend_direction
        (format_alert_data (sample_env []) sample_now (values_frame [500])) = [''Single Point'']"
proof -
  have h: "len (values_frame [500]) = 1" by (simp add: frame_defs)
  have e: "hd (col_energyOutput (values_frame [500])) = 500" by (simp add: frame_defs)
  obtain a where a: "format_alert_data (sample_env []) sample_now (values_frame [500]) = [a]"
      "energy_kwh a = hd (col_energyOutput (values_frame [500]))"
      "trend_direction a = ''Single Point''" "expected_max a = NaN" "expected_min a = Fin 0"
      "deviation_percentage a = (if energy_kwh a = 0 then NaN else Fin 0)"
    using format_alert_data_single [OF h, of "sample_env []" sample_now] by blast
  show ?thesis using h a e by simp
qed

section \<open>Daily export\<close>

lemma sample_env_sel:
  "to_datetime (sample_env bad) = sample_to_datetime"
  "strftime_date (sample_env bad) = sample_strftime_date"
  "strftime_seconds (sample_env bad) t = sample_strftime_date (day t) @ '' 12:00:00''"
  "clock (sample_env bad) i = \<lparr>day = 19744, hour = 12\<rparr>"
  "write_error (sample_env bad) p = (if p \<in> set bad then Some ''No space left on device'' else None)"
  by (simp_all add: sample_env_def)

lemma to_datetime_col_length:
  "to_datetime_col parse cells = Inr dates \<Longrightarrow> length dates = length cells"
  by (induction cells arbitrary: dates) (auto split: sum.splits cell.splits)


lemma select_none: "\<forall>b \<in> set keep. \<not> b \<Longrightarrow> select keep xs = []"
  by (auto simp: select_def filter_empty_conv dest: set_zip_leftD)

lemma take_len: "take (length old) s = old \<Longrightarrow> length old \<le> length s"
  by (metis length_take min.cobounded1 min.commute)

lemma str_replace_length:
  "length old \<le> length new \<Longrightarrow> length s \<le> length (str_replace old new s)"
proof (induction old new s rule: str_replace.induct)
  case (1 old new)
  then show ?case by simp
next
  case (2 old new c cs)
  show ?case
  proof (cases "old \<noteq> [] \<and> take (length old) (c # cs) = old")
    case True
    then have l: "length old \<le> length (c # cs)"
      using take_len by blast
    have "length (drop (length old) (c # cs))
            \<le> length (str_replace old new (drop (length old) (c # cs)))"
      using 2 True by blast
    then show ?thesis using True 2(3) l by (simp del: take_Suc_Cons drop_Suc_Cons)
  next
    case False
    then have "length cs \<le> length (str_replace old new cs)"
      using 2 by blast
    then show ?thesis using False by auto
  qed
qed

lemma str_replace_grows:
  assumes "old \<noteq> []" "length old < length new"
  shows "length (u @ old @ v) < length (str_replace old new (u @ old @ v))"
proof (induction u)
  case Nil
  obtain c cs where o: "old @ v = c # cs"
    using assms(1) by (cases old) auto
  have t: "take (length old) (c # cs) = old" "drop (length old) (c # cs) = v"
    using o by (metis append_eq_conv_conj)+
  have "length v \<le> length (str_replace old new v)"
    using assms(2) by (intro str_replace_length) simp
  moreover have "length (c # cs) = length old + length v"
    using o by (metis length_append)
  ultimately show ?case
    using assms t unfolding append_Nil o
    by (simp del: take_Suc_Cons drop_Suc_Cons length_Cons)
next
  case (Cons a u)
  let ?s = "a # (u @ old @ v)"
  show ?case
  proof (cases "take (length old) ?s = old")
    case True
    have l: "length old \<le> length ?s" by simp
    have "length (drop (length old) ?s) \<le> length (str_replace old new (drop (length old) ?s))"
      using assms(2) by (intro str_replace_length) simp
    then show ?thesis
      using True assms l by (simp del: take_Suc_Cons drop_Suc_Cons)
  next
    case False
    then show ?thesis using Cons by simp
  qed
qed
lemma export_path_csv: "\<exists>u. os_path_join dir (stem @ ''.csv'') = u @ ''.csv'' @ []"
proof -
  have "os_path_join dir (stem @ ''.csv'') = stem @ ''.csv''
      \<or> os_path_join dir (stem @ ''.csv'') = (dir @ stem) @ ''.csv''
      \<or> os_path_join dir (stem @ ''.csv'') = (dir @ ''/'' @ stem) @ ''.csv''"
    by (simp add: os_path_join_def)
  then show ?thesis by (metis append_Nil2)
qed

lemma summary_path_differs:
  "str_replace ''.csv'' ''_summary.json'' (os_path_join dir (stem @ ''.csv''))
     \<noteq> os_path_join dir (stem @ ''.csv'')"
proof -
  obtain u where u: "os_path_join dir (stem @ ''.csv'') = u @ ''.csv'' @ []"
    using export_path_csv by blast
  have "length (u @ ''.csv'' @ []) < length (str_replace ''.csv'' ''_summary.json'' (u @ ''.csv'' @ []))"
    by (rule str_replace_grows) simp_all
  then show ?thesis unfolding u by auto
qed







lemma filter_empty_day:
  assumes "fst (filter_anomalies_by_date E t data (Some export_date)) = Inr daily"
  shows "col_date data = None \<longrightarrow> len daily = 0"
    and "col_date data = Some cells \<and> to_datetime_col (to_datetime E) cells = Inr dates
         \<and> to_datetime E export_date = Inr target
         \<and> (\<forall>d \<in> set dates. day d \<noteq> day target) \<longrightarrow> len daily = 0"
  using assms
  by (auto simp: filter_anomalies_by_date_def Let_def len_def filter_rows_def empty_frame_def
      select_none split: option.splits sum.splits)

text \<open>
  Claim C6. When the files can be written, the daily export stores under the export path a
  file whose header is the fixed list of 13 column names, for an empty and for a
  non-empty day alike (the columns of a formatted frame are that same list), with one row
  per reading of the day. When no reading falls on the target day (no \<open>date\<close> column, or
  no date on that day) the file has the header and no rows, and the summary counts 0
  alerts.
\<close>

theorem export_empty_day_schema:
  fixes E :: "('s, 'f) env" and self :: exporter and prefix export_date :: string
  defines "path \<equiv> os_path_join (output_dir self)
                    (prefix @ ''_'' @ str_replace ''-'' '''' export_date @ ''.csv'')"
  assumes "fst (filter_anomalies_by_date E t data (Some export_date)) = Inr daily"
    and "write_error E path = None"
    and "write_error E (str_replace ''.csv'' ''_summary.json'' path) = None"
  shows "(\<exists>stats st'.
            export_daily_alerts E t self (data, fs) (Some export_date) prefix
              = (Inr (path, len daily, stats), st')
          \<and> snd st' path = Some (Csv headers (format_alert_data E t daily))
          \<and> total_alerts stats = len daily)
       \<and> (len daily = 0 \<longrightarrow> format_alert_data E t daily = [])
       \<and> (col_date data = None \<longrightarrow> len daily = 0)
       \<and> (col_date data = Some cells \<and> to_datetime_col (to_datetime E) cells = Inr dates
            \<and> to_datetime E export_date = Inr target
            \<and> (\<forall>d \<in> set dates. day d \<noteq> day target) \<longrightarrow> len daily = 0)
       \<and> export_columns = headers
       \<and> headers = [''alert_id'', ''timestamp'', ''energy_kwh'', ''severity'',
            ''anomaly_score'', ''deviation_percentage'', ''expected_min'', ''expected_max'',
            ''system_status'', ''recommended_action'', ''units_affected'', ''trend_direction'',
            ''created_at'']"
proof -
  obtain data' where f: "filter_anomalies_by_date E t data (Some export_date) = (Inr daily, data')"
    using assms(2) by (cases "filter_anomalies_by_date E t data (Some export_date)") auto
  have cols: "export_columns = headers"
    by (simp add: export_columns_def headers_def)
  have diff: "str_replace ''.csv'' ''_summary.json'' path \<noteq> path"
    unfolding path_def
    using summary_path_differs [of "output_dir self"
        "prefix @ ''_'' @ str_replace ''-'' '''' export_date"]
    by simp
  have len0: "format_alert_data E t daily = []" if "len daily = 0"
    using that by (simp add: format_alert_data_def)
  have ex: "\<exists>stats st'.
            export_daily_alerts E t self (data, fs) (Some export_date) prefix
              = (Inr (path, len daily, stats), st')
          \<and> snd st' path = Some (Csv headers (format_alert_data E t daily))
          \<and> total_alerts stats = len daily"
  proof -
    have p: "os_path_join (output_dir self)
               (prefix @ ''_'' @ str_replace ''-'' [] export_date @ ''.csv'') = path"
      by (simp add: path_def)
    note p' = p [simplified]
    have n: "length (format_alert_data E t daily) = len daily"
      by (rule length_format_alert_data)
    have e: "len daily = 0" if "format_alert_data E t daily = []"
      using n that by simp
    show ?thesis
      using f assms(3,4) diff len0 e cols
      by (auto simp: export_daily_alerts_def Let_def write_file_def p' n
          generate_summary_stats_def)
  qed
  show ?thesis
    using ex len0 filter_empty_day [OF assms(2)] cols by (simp add: headers_def)
qed

theorem export_empty_day_schema_witness:
  "fst (filter_anomalies_by_date (sample_env []) sample_now sample_data (Some ''2024-01-21''))
     = Inr (empty_frame\<lparr>col_date := Some [], col_severity := Some []\<rparr>)
   \<and> (\<exists>stats st'.
         export_daily_alerts (sample_env []) sample_now sample_exporter (sample_data, Map.empty)
             (Some ''2024-01-21'') ''alerts''
           = (Inr (''./exports/alerts_20240121.csv'', 0, stats), st')
       \<and> snd st' ''./exports/alerts_20240121.csv'' = Some (Csv headers [])
       \<and> total_alerts stats = 0)
   \<and> length headers = 13"
proof -
  let ?E = "sample_env [] :: (nat option, (nat \<times> real) option) env"
  let ?daily = "empty_frame\<lparr>col_date := Some [], col_severity := Some []\<rparr>"
  let ?path = "os_path_join (output_dir sample_exporter)
                 (''alerts'' @ ''_'' @ str_replace ''-'' '''' ''2024-01-21'' @ ''.csv'')"
  have p: "?path = ''./exports/alerts_20240121.csv''"
    by (simp add: os_path_join_def sample_exporter_def)
  have h1: "fst (filter_anomalies_by_date ?E sample_now sample_data (Some ''2024-01-21''))
      = Inr ?daily"
    by (simp add: filter_anomalies_by_date_def sample_env_sel sample_to_datetime_def
        sample_dates_def sample_data_def frame_defs)
  have h2: "write_error ?E ?path = None"
    by (simp add: sample_env_sel)
  have h3: "write_error ?E (str_replace ''.csv'' ''_summary.json'' ?path) = None"
    by (simp add: sample_env_sel)
  have n: "len ?daily = 0" by (simp add: frame_defs)
  note T = export_empty_day_schema [OF h1 h2 h3, where fs = Map.empty, unfolded p n]
  have f: "format_alert_data ?E sample_now ?daily = []"
    using T n by blast
  have "\<exists>stats st'.
         export_daily_alerts ?E sample_now sample_exporter (sample_data, Map.empty)
             (Some ''2024-01-21'') ''alerts''
           = (Inr (''./exports/alerts_20240121.csv'', 0, stats), st')
       \<and> snd st' ''./exports/alerts_20240121.csv''
           = Some (Csv headers (format_alert_data ?E sample_now ?daily))
       \<and> total_alerts stats = 0"
    using T by blast
  then have e: "\<exists>stats st'.
         export_daily_alerts ?E sample_now sample_exporter (sample_data, Map.empty)
             (Some ''2024-01-21'') ''alerts''
           = (Inr (''./exports/alerts_20240121.csv'', 0, stats), st')
       \<and> snd st' ''./exports/alerts_20240121.csv'' = Some (Csv headers [])
       \<and> total_alerts stats = 0"
    unfolding f .
  have l: "length headers = 13" by (simp add: headers_def)
  show ?thesis using h1 e l by blast
qed

section \<open>Batch export\<close>

lemma batch_step_length: "length (fst (batch_step E self i acc)) = Suc (length (fst acc))"
  by (simp add: batch_step_def Let_def split: prod.splits sum.splits)

lemma fold_batch_step_length:
  "length (fst (fold (batch_step E self) js acc)) = length (fst acc) + length js"
  by (induction js arbitrary: acc) (simp_all add: batch_step_length)

lemma batch_export_Suc:
  "batch_export E self st (int (Suc k)) = batch_step E self k (batch_export E self st (int k))"
proof -
  have "[0..<nat (int (Suc k))] = [0..<k] @ [k]"
    by (simp only: nat_int upt_Suc) simp
  then show ?thesis
    unfolding batch_export_def by (simp only: fold_append comp_def nat_int fold_simps)
qed

lemma sample_batch:
  "fst (batch_export (sample_env [''./exports/alerts_20240120.csv''])
        sample_exporter (sample_data, Map.empty) 7) =
     [\<lparr>date = ''2024-01-22'', file_path = Some ''./exports/alerts_20240122.csv'',
       alert_count = 3, status = ''success'', error = None\<rparr>,
      \<lparr>date = ''2024-01-21'', file_path = Some ''./exports/alerts_20240121.csv'',
       alert_count = 0, status = ''success'', error = None\<rparr>,
      \<lparr>date = ''2024-01-20'', file_path = None,
       alert_count = 0, status = ''failed'', error = Some ''No space left on device''\<rparr>,
      \<lparr>date = ''2024-01-19'', file_path = Some ''./exports/alerts_20240119.csv'',
       alert_count = 0, status = ''success'', error = None\<rparr>,
      \<lparr>date = ''2024-01-18'', file_path = Some ''./exports/alerts_20240118.csv'',
       alert_count = 0, status = ''success'', error = None\<rparr>,
      \<lparr>date = ''2024-01-17'', file_path = Some ''./exports/alerts_20240117.csv'',
       alert_count = 0, status = ''success'', error = None\<rparr>,
      \<lparr>date = ''2024-01-16'', file_path = Some ''./exports/alerts_20240116.csv'',
       alert_count = 0, status = ''success'', error = None\<rparr>]"
  by (simp add: batch_export_def batch_step_def export_daily_alerts_def
      filter_anomalies_by_date_def sample_env_sel sample_to_datetime_def
      sample_strftime_date_def sample_dates_def sample_data_def sample_exporter_def
      frame_defs Let_def write_file_def os_path_join_def format_alert_data_def
      length_alert_rows str_of_error_def upt_rec)

text \<open>
  Claim C5. \<open>batch_export\<close> over a window of \<open>N\<close> days returns \<open>N\<close> records in day order,
  whatever the outcomes. Each day is exported after all earlier days of the window,
  whether they failed or not: a day whose export raises contributes a record with status
  "failed" carrying the message of the exception, no path and count 0; a day whose export
  returns contributes a "success" record with the path and the count. In the 7-day export
  in which writing the third day's file fails, the result has 7 records, the third
  "failed" with the I/O error's message and the others "success".
\<close>

theorem batch_export_records:
  fixes E :: "('s, 'f) env"
  defines "export_date \<equiv> (\<lambda>i. strftime_date E (day (clock E i) - int i))"
  shows "length (fst (batch_export E self st n)) = nat n
       \<and> (0 \<le> n \<longrightarrow> int (length (fst (batch_export E self st n))) = n)
       \<and> batch_export E self st (int (Suc k))
           = batch_step E self k (batch_export E self st (int k))
       \<and> (export_daily_alerts E (clock E i) self (snd acc) (Some (export_date i)) ''alerts''
             = (Inl e, st') \<longrightarrow>
           batch_step E self i acc =
             (fst acc @ [\<lparr>date = export_date i, file_path = None, alert_count = 0,
                           status = ''failed'', error = Some (str_of_error e)\<rparr>], st'))
       \<and> (export_daily_alerts E (clock E i) self (snd acc) (Some (export_date i)) ''alerts''
             = (Inr (path, count, stats), st') \<longrightarrow>
           batch_step E self i acc =
             (fst acc @ [\<lparr>date = export_date i, file_path = Some path, alert_count = count,
                           status = ''success'', error = None\<rparr>], st'))
       \<and> map status (fst (batch_export (sample_env [''./exports/alerts_20240120.csv''])
              sample_exporter (sample_data, Map.empty) 7))
           = [''success'', ''success'', ''failed'', ''success'', ''success'', ''success'',
              ''success'']
       \<and> map error (fst (batch_export (sample_env [''./exports/alerts_20240120.csv''])
              sample_exporter (sample_data, Map.empty) 7))
           = [None, None, Some ''No space left on device'', None, None, None, None]"
proof -
  have len: "length (fst (batch_export E self st n)) = nat n"
    by (simp add: batch_export_def fold_batch_step_length)
  have failed: "batch_step E self i acc =
             (fst acc @ [\<lparr>date = export_date i, file_path = None, alert_count = 0,
                           status = ''failed'', error = Some (str_of_error e)\<rparr>], st')"
    if "export_daily_alerts E (clock E i) self (snd acc) (Some (export_date i)) ''alerts''
             = (Inl e, st')"
    using that by (simp add: batch_step_def export_date_def Let_def)
  have success: "batch_step E self i acc =
             (fst acc @ [\<lparr>date = export_date i, file_path = Some path, alert_count = count,
                           status = ''success'', error = None\<rparr>], st')"
    if "export_daily_alerts E (clock E i) self (snd acc) (Some (export_date i)) ''alerts''
             = (Inr (path, count, stats), st')"
    using that by (simp add: batch_step_def export_date_def Let_def)
  show ?thesis
    using len failed success batch_export_Suc [of E self st k]
    by (simp add: sample_batch)
qed

theorem batch_export_records_witness:
  "(0 :: int) \<le> 7
   \<and> length (fst (batch_export (sample_env [''./exports/alerts_20240120.csv''])
        sample_exporter (sample_data, Map.empty) 7)) = 7
   \<and> fst (export_daily_alerts (sample_env [''./exports/alerts_20240120.csv''])
        \<lparr>day = 19744, hour = 12\<rparr> sample_exporter (stamped_data, Map.empty)
        (Some ''2024-01-20'') ''alerts'') = Inl (OSError ''No space left on device'')
   \<and> fst (batch_step (sample_env [''./exports/alerts_20240120.csv'']) sample_exporter 2
        ([], (stamped_data, Map.empty)))
       = [\<lparr>date = ''2024-01-20'', file_path = None, alert_count = 0, status = ''failed'',
           error = Some ''No space left on device''\<rparr>]"
proof -
  let ?E = "sample_env [''./exports/alerts_20240120.csv'']
              :: (nat option, (nat \<times> real) option) env"
  let ?acc = "([], (stamped_data, Map.empty)) :: batch_result list \<times> frame \<times> files"
  have x: "export_daily_alerts ?E (clock ?E 2) sample_exporter
        (snd ?acc)
        (Some (strftime_date ?E (day (clock ?E 2) - int 2))) ''alerts''
      = (Inl (OSError ''No space left on device''), (stamped_data, Map.empty))"
    by (simp add: export_daily_alerts_def filter_anomalies_by_date_def sample_env_sel
        sample_to_datetime_def sample_strftime_date_def sample_dates_def sample_data_def
        stamped_data_def sample_exporter_def frame_defs Let_def write_file_def
        os_path_join_def format_alert_data_def)
  note T = batch_export_records [where E = ?E and self = sample_exporter
      and st = "(sample_data, Map.empty)" and n = 7 and i = 2
      and acc = ?acc
      and e = "OSError ''No space left on device''" and st' = "(stamped_data, Map.empty)"]
  have n: "(0 :: int) \<le> 7" by simp
  have l: "length (fst (batch_export ?E sample_exporter (sample_data, Map.empty) 7)) = 7"
    using T by simp
  have s: "batch_step ?E sample_exporter 2 ?acc =
      (fst ?acc
         @ [\<lparr>date = strftime_date ?E (day (clock ?E 2) - int 2), file_path = None,
              alert_count = 0, status = ''failed'',
              error = Some (str_of_error (OSError ''No space left on device''))\<rparr>],
       (stamped_data, Map.empty))"
    using T [THEN conjunct2, THEN conjunct2, THEN conjunct2, THEN conjunct1] x
    by (rule mp)
  have d: "strftime_date ?E (day (clock ?E 2) - int 2) = ''2024-01-20''"
    by (simp add: sample_env_sel sample_strftime_date_def sample_dates_def)
  have c: "clock ?E 2 = \<lparr>day = 19744, hour = 12\<rparr>" by (simp add: sample_env_sel)
  note x' = x [unfolded d, unfolded c]
  have s': "fst (batch_step ?E sample_exporter 2 ?acc)
       = [\<lparr>date = ''2024-01-20'', file_path = None, alert_count = 0, status = ''failed'',
           error = Some ''No space left on device''\<rparr>]"
    unfolding s [unfolded d] by (simp add: str_of_error_def)
  have x'': "fst (export_daily_alerts ?E \<lparr>day = 19744, hour = 12\<rparr> sample_exporter
        (stamped_data, Map.empty) (Some ''2024-01-20'') ''alerts'')
      = Inl (OSError ''No space left on device'')"
    using x' by simp
  show ?thesis
    using n l s' x'' by blast
qed

end
